theory Spec2Isabelle
  imports Complex_Main
begin

section \<open>Marker chart canvas: data model\<close>

text \<open>
  The embedding follows \<^verbatim>\<open>src/components/marker-chart/Canvas.js\<close>.
  JavaScript numbers are modelled as exact reals: rounding error of doubles is not
  part of the model, and a JavaScript division by zero (which gives an infinity or
  NaN) has no counterpart, so every statement below either assumes the divisor it
  depends on to be non-zero or does not depend on the quotient.
  Flow types the four arrays of a timing row and its \<^verbatim>\<open>length\<close> field
  separately; \<open>wf_markerTiming\<close> says that they agree, and under it every array read
  of the model is in range.
\<close>

type_synonym MarkerIndex = nat

record markerTiming =
  mt_start :: "real list"
  mt_end :: "real list"
  mt_index :: "MarkerIndex list"
  mt_label :: "string list"
  mt_name :: string
  mt_length :: nat

text \<open>A row of \<^verbatim>\<open>MarkerTimingAndBuckets\<close> is a timing row or a plain string (bucket name).\<close>

datatype row = Timing markerTiming | Bucket string

record viewport =
  containerWidth :: real
  containerHeight :: real
  viewportLeft :: real
  viewportRight :: real
  viewportTop :: real
  viewportBottom :: real

record props =
  rangeStart :: real
  rangeEnd :: real
  markerTimingAndBuckets :: "row list"
  rowHeight :: real
  marginLeft :: real
  marginRight :: real
  selectedMarkerIndex :: "MarkerIndex option"
  rightClickedMarkerIndex :: "MarkerIndex option"
  timelineTrackOrganizationType :: string
  vp :: viewport

record hoveredMarkerChartItems =
  markerIndex :: "MarkerIndex option"
  rowIndexOfLabel :: "int option"

text \<open>
  The text measurement collaborator (\<^verbatim>\<open>utils/text-measurement\<close>) is a parameter:
  its minimum renderable width, its fitting function (\<open>None\<close> is \<^verbatim>\<open>null\<close>) and
  its width function.
\<close>

record textMeasurement =
  minWidth :: real
  getFittedText :: "string \<Rightarrow> real \<Rightarrow> string option"
  getTextWidth :: "string \<Rightarrow> real"

text \<open>What a call can throw: the explicit \<^verbatim>\<open>throw new Error\<close> of \<^verbatim>\<open>drawCanvas\<close>,
  and the TypeError of a property read on \<^verbatim>\<open>undefined\<close>.\<close>

datatype error = ScaleError | TypeError

definition TEXT_OFFSET_TOP :: real where "TEXT_OFFSET_TOP = 11"
definition TEXT_OFFSET_START :: real where "TEXT_OFFSET_START = 3"
definition MARKER_DOT_RADIUS :: real where "MARKER_DOT_RADIUS = 0.25"
definition LABEL_PADDING :: real where "LABEL_PADDING = 5"

definition wf_markerTiming :: "markerTiming \<Rightarrow> bool" where
  "wf_markerTiming mt =
     (length (mt_start mt) = mt_length mt \<and> length (mt_end mt) = mt_length mt \<and>
      length (mt_index mt) = mt_length mt \<and> length (mt_label mt) = mt_length mt)"

text \<open>\<^verbatim>\<open>array[i]\<close> for a JavaScript number \<open>i\<close> that is an integer: \<open>None\<close> is
  \<^verbatim>\<open>undefined\<close> (negative or past the end).\<close>

definition rowAt :: "row list \<Rightarrow> int \<Rightarrow> row option" where
  "rowAt rows i = (if 0 \<le> i \<and> i < int (length rows) then Some (rows ! nat i) else None)"

text \<open>The \<^verbatim>\<open>.name\<close> property of a row: a string has none (\<^verbatim>\<open>undefined\<close>).\<close>

fun rowName :: "row \<Rightarrow> string option" where
  "rowName (Timing mt) = Some (mt_name mt)"
| "rowName (Bucket s) = None"

section \<open>Binary search\<close>

text \<open>
  Modelled from the spec: \<^verbatim>\<open>bisectionRight\<close> of \<^verbatim>\<open>utils/bisect\<close> is not among the
  sources. The spec describes it as a binary search of the ascending array for the
  insertion point of the value, "first index whose start is strictly greater than"
  the value.
\<close>

function bisectionRight_loop :: "real list \<Rightarrow> real \<Rightarrow> nat \<Rightarrow> nat \<Rightarrow> nat" where
  "bisectionRight_loop array x low high =
     (if low < high
      then (let mid = (low + high) div 2
            in if x < array ! mid
               then bisectionRight_loop array x low mid
               else bisectionRight_loop array x (mid + 1) high)
      else low)"
  by pat_completeness auto
termination
  by (relation "measure (\<lambda>(array, x, low, high). high - low)") auto

declare bisectionRight_loop.simps [simp del]

definition bisectionRight :: "real list \<Rightarrow> real \<Rightarrow> nat" where
  "bisectionRight array x = bisectionRight_loop array x 0 (length array)"

section \<open>Hit testing\<close>

text \<open>The coordinates \<^verbatim>\<open>hitTest\<close> computes from the pointer position.\<close>

definition markerContainerWidth :: "props \<Rightarrow> real" where
  "markerContainerWidth P = containerWidth (vp P) - marginLeft P - marginRight P"

definition rangeLength :: "props \<Rightarrow> real" where
  "rangeLength P = rangeEnd P - rangeStart P"

definition viewportLength :: "props \<Rightarrow> real" where
  "viewportLength P = viewportRight (vp P) - viewportLeft (vp P)"

definition dotRadius :: "props \<Rightarrow> real" where
  "dotRadius P = MARKER_DOT_RADIUS * rowHeight P"

definition xInUnitInterval :: "props \<Rightarrow> real \<Rightarrow> real" where
  "xInUnitInterval P x =
     viewportLeft (vp P) + viewportLength P * ((x - marginLeft P) / markerContainerWidth P)"

definition dotRadiusInTime :: "props \<Rightarrow> real" where
  "dotRadiusInTime P = (dotRadius P / markerContainerWidth P) * viewportLength P * rangeLength P"

definition xInTime :: "props \<Rightarrow> real \<Rightarrow> real" where
  "xInTime P x = rangeStart P + xInUnitInterval P x * rangeLength P"

definition hitRowIndex :: "props \<Rightarrow> real \<Rightarrow> int" where
  "hitRowIndex P y = \<lfloor>(y + viewportTop (vp P)) / rowHeight P\<rfloor>"

definition isMarkerTimingInDotRadius :: "props \<Rightarrow> markerTiming \<Rightarrow> real \<Rightarrow> nat \<Rightarrow> bool" where
  "isMarkerTimingInDotRadius P mt x i =
     (mt_start mt ! i < xInTime P x + dotRadiusInTime P \<and>
      mt_end mt ! i > xInTime P x - dotRadiusInTime P)"

text \<open>The candidate of the common case: the previous marker when its signed gap is
  strictly smaller, the next one otherwise.\<close>

definition closest :: "props \<Rightarrow> markerTiming \<Rightarrow> real \<Rightarrow> nat \<Rightarrow> nat" where
  "closest P mt x nextStartIndex =
     (let prevStartIndex = nextStartIndex - 1;
          distanceToNext = mt_start mt ! nextStartIndex - xInTime P x;
          distanceToPrev = xInTime P x - mt_end mt ! prevStartIndex
      in if distanceToPrev < distanceToNext then prevStartIndex else nextStartIndex)"

definition hitMarker :: "props \<Rightarrow> markerTiming \<Rightarrow> real \<Rightarrow> MarkerIndex option" where
  "hitMarker P mt x =
     (let nextStartIndex = bisectionRight (mt_start mt) (xInTime P x)
      in if nextStartIndex > 0 \<and> nextStartIndex < mt_length mt
         then (if isMarkerTimingInDotRadius P mt x (closest P mt x nextStartIndex)
               then Some (mt_index mt ! closest P mt x nextStartIndex) else None)
         else if nextStartIndex = 0
         then (if isMarkerTimingInDotRadius P mt x nextStartIndex
               then Some (mt_index mt ! nextStartIndex) else None)
         else (if isMarkerTimingInDotRadius P mt x (nextStartIndex - 1)
               then Some (mt_index mt ! (nextStartIndex - 1)) else None))"

text \<open>The label test of the active tab view. \<open>tm\<close> is the field
  \<^verbatim>\<open>this._textMeasurement\<close>, \<open>None\<close> before the first drawing. The previous row is
  read without a check: \<^verbatim>\<open>prevMarkerTiming.name\<close> throws when there is none.\<close>

definition hitLabel ::
  "props \<Rightarrow> textMeasurement option \<Rightarrow> markerTiming \<Rightarrow> int \<Rightarrow> real \<Rightarrow> error + int option" where
  "hitLabel P tm mt rowIndex x =
     (case rowAt (markerTimingAndBuckets P) (rowIndex - 1) of
        None \<Rightarrow> Inl TypeError
      | Some prevMarkerTiming \<Rightarrow>
          (if rowName prevMarkerTiming \<noteq> Some (mt_name mt)
           then (case tm of
                   None \<Rightarrow> Inr None
                 | Some t \<Rightarrow>
                     if x < getTextWidth t (mt_name mt) + LABEL_PADDING * 2
                     then Inr (Some rowIndex) else Inr None)
           else Inr None))"

definition hoveredItems :: "MarkerIndex option \<Rightarrow> int option \<Rightarrow> hoveredMarkerChartItems option" where
  "hoveredItems m l =
     (if m = None \<and> l = None then None
      else Some \<lparr>markerIndex = m, rowIndexOfLabel = l\<rparr>)"

definition hitTest ::
  "props \<Rightarrow> textMeasurement option \<Rightarrow> real \<Rightarrow> real \<Rightarrow> error + hoveredMarkerChartItems option" where
  "hitTest P tm x y =
     (if x < marginLeft P - dotRadius P then Inr None
      else (case rowAt (markerTimingAndBuckets P) (hitRowIndex P y) of
              None \<Rightarrow> Inr None
            | Some (Bucket s) \<Rightarrow> Inr None
            | Some (Timing mt) \<Rightarrow>
                if mt_length mt = 0 then Inr None
                else if timelineTrackOrganizationType P = ''active-tab''
                then (case hitLabel P tm mt (hitRowIndex P y) x of
                        Inl e \<Rightarrow> Inl e
                      | Inr l \<Rightarrow> Inr (hoveredItems (hitMarker P mt x) l))
                else Inr (hoveredItems (hitMarker P mt x) None)))"

text \<open>The marker of a result: none when the result is \<^verbatim>\<open>null\<close> or the call threw.\<close>

definition resultMarker :: "error + hoveredMarkerChartItems option \<Rightarrow> MarkerIndex option" where
  "resultMarker r = (case r of Inr (Some h) \<Rightarrow> markerIndex h | _ \<Rightarrow> None)"

section \<open>The rasterization sink\<close>

text \<open>
  Drawing is modelled by the sequence of calls it makes on the 2d context and on the
  text measurement, in order. The colours of \<^verbatim>\<open>photon-colors\<close> are kept by name.
\<close>

datatype style = GREY_20 | GREY_30 | BLUE_60 | BLUE_80 | Css string

datatype call =
    SetLineWidth real
  | SetFillStyle style
  | SetStrokeStyle style
  | FillRect real real real real
  | BeginPath
  | Rect real real real real
  | Fill
  | Stroke
  | MoveTo real real
  | LineTo real real
  | ClosePath
  | FillText string real real
  | Save
  | Restore
  | Clip
  | GetFittedText string real
  | GetTextWidth string

definition MARKER_BORDER_COLOR :: style where "MARKER_BORDER_COLOR = Css ''#2c77d1''"

record markerDrawingInformation =
  di_x :: real
  di_y :: real
  di_w :: real
  di_h :: real
  di_isInstantMarker :: bool
  di_text :: string

text \<open>\<^verbatim>\<open>Math.round\<close> rounds to the nearest integer, a half towards plus infinity.\<close>

definition Math_round :: "real \<Rightarrow> real" where
  "Math_round v = real_of_int \<lfloor>v + 1 / 2\<rfloor>"

text \<open>A \<^verbatim>\<open>string | null\<close> value where the callee takes a string.\<close>

definition toDOMString :: "string option \<Rightarrow> string" where
  "toDOMString v = (case v of None \<Rightarrow> ''null'' | Some s \<Rightarrow> s)"

section \<open>Drawing one marker\<close>

text \<open>In the drawing functions \<open>tm\<close> is the text measurement that
  \<^verbatim>\<open>_getTextMeasurement\<close> returns.\<close>

definition drawOneIntervalMarker ::
  "props \<Rightarrow> textMeasurement \<Rightarrow> real \<Rightarrow> real \<Rightarrow> real \<Rightarrow> real \<Rightarrow> string \<Rightarrow> bool \<Rightarrow> call list" where
  "drawOneIntervalMarker P tm x y w h text isHighlighted =
     (if w \<le> 2
      then [SetFillStyle (if isHighlighted then BLUE_80 else MARKER_BORDER_COLOR),
            FillRect x (y + 1) (max w 1) (h - 2)]
      else [SetFillStyle (if isHighlighted then BLUE_60 else Css ''#8ac4ff''),
            SetStrokeStyle (if isHighlighted then BLUE_80 else MARKER_BORDER_COLOR),
            BeginPath,
            Rect (x + 0.5) (y + 1 + 0.5) (w - 1) (h - 2 - 1),
            Fill,
            Stroke] @
           (let x2 = (if x < marginLeft P then marginLeft P + TEXT_OFFSET_START
                      else x + TEXT_OFFSET_START);
                visibleWidth = (if x < marginLeft P then w - marginLeft P + x else w);
                w2 = visibleWidth - 2 * TEXT_OFFSET_START
            in if w2 > minWidth tm
               then GetFittedText text w2 #
                    (case getFittedText tm text w2 of
                       None \<Rightarrow> []
                     | Some fittedText \<Rightarrow>
                         if fittedText \<noteq> []
                         then [SetFillStyle (Css (if isHighlighted then ''white'' else ''black'')),
                               FillText fittedText x2 (y + TEXT_OFFSET_TOP)]
                         else [])
               else []))"

definition drawOneInstantMarker :: "real \<Rightarrow> real \<Rightarrow> real \<Rightarrow> bool \<Rightarrow> call list" where
  "drawOneInstantMarker x y h isHighlighted =
     [SetFillStyle (if isHighlighted then BLUE_60 else Css ''#8ac4ff''),
      SetStrokeStyle (if isHighlighted then BLUE_80 else MARKER_BORDER_COLOR),
      BeginPath,
      MoveTo (x - h / 4) (y + h / 2),
      LineTo x (y + 1.5),
      LineTo (x + h / 4) (y + h / 2),
      LineTo x (y + h - 1.5),
      ClosePath,
      Fill,
      Stroke]"

definition drawOneMarker ::
  "props \<Rightarrow> textMeasurement \<Rightarrow> markerDrawingInformation \<Rightarrow> bool \<Rightarrow> call list" where
  "drawOneMarker P tm m isHighlighted =
     (if di_isInstantMarker m
      then drawOneInstantMarker (di_x m) (di_y m) (di_h m) isHighlighted
      else drawOneIntervalMarker P tm (di_x m) (di_y m) (di_w m) (di_h m) (di_text m)
             isHighlighted)"

section \<open>Drawing the markers of a range of rows\<close>

definition timeAtViewportLeft :: "props \<Rightarrow> real" where
  "timeAtViewportLeft P = rangeStart P + rangeLength P * viewportLeft (vp P)"

definition timeAtViewportRightPlusMargin :: "props \<Rightarrow> real" where
  "timeAtViewportRightPlusMargin P =
     rangeStart P + rangeLength P * viewportRight (vp P) +
     marginRight P * ((viewportLength P * rangeLength P) / markerContainerWidth P)"

text \<open>"Only draw samples that are in bounds."\<close>

definition inBounds :: "props \<Rightarrow> markerTiming \<Rightarrow> nat \<Rightarrow> bool" where
  "inBounds P mt i =
     (mt_end mt ! i \<ge> timeAtViewportLeft P \<and>
      mt_start mt ! i < timeAtViewportRightPlusMargin P)"

text \<open>The geometry of marker \<open>i\<close> of row \<open>rowIndex\<close>; \<open>dpr\<close> is
  \<^verbatim>\<open>window.devicePixelRatio\<close>.\<close>

definition markerGeometry ::
  "props \<Rightarrow> real \<Rightarrow> int \<Rightarrow> markerTiming \<Rightarrow> nat \<Rightarrow> markerDrawingInformation" where
  "markerGeometry P dpr rowIndex mt i =
     (let startTimestamp = mt_start mt ! i;
          endTimestamp = mt_end mt ! i;
          isInstantMarker = (startTimestamp = endTimestamp);
          startTime = (startTimestamp - rangeStart P) / rangeLength P;
          endTime = (endTimestamp - rangeStart P) / rangeLength P;
          x = ((startTime - viewportLeft (vp P)) * markerContainerWidth P) / viewportLength P
              + marginLeft P;
          y = real_of_int rowIndex * rowHeight P - viewportTop (vp P);
          w = ((endTime - startTime) * markerContainerWidth P) / viewportLength P;
          h = rowHeight P - 1
      in \<lparr>di_x = Math_round (x * dpr) / dpr, di_y = y,
          di_w = Math_round (w * dpr) / dpr, di_h = h,
          di_isInstantMarker = isInstantMarker, di_text = mt_label mt ! i\<rparr>)"

definition isHighlightedMarker :: "props \<Rightarrow> MarkerIndex option \<Rightarrow> MarkerIndex \<Rightarrow> bool" where
  "isHighlightedMarker P hovered mi =
     (rightClickedMarkerIndex P = Some mi \<or> hovered = Some mi \<or>
      selectedMarkerIndex P = Some mi)"

record drawState =
  calls :: "call list"
  highlightedMarkers :: "markerDrawingInformation list"
  previousMarkerDrawnAtX :: "real option"

text \<open>One turn of the inner loop, for marker \<open>i\<close> of the row.\<close>

definition markerStep ::
  "props \<Rightarrow> real \<Rightarrow> textMeasurement \<Rightarrow> MarkerIndex option \<Rightarrow> int \<Rightarrow> markerTiming \<Rightarrow> nat \<Rightarrow>
   drawState \<Rightarrow> drawState" where
  "markerStep P dpr tm hovered rowIndex mt i st =
     (if inBounds P mt i
      then (let m = markerGeometry P dpr rowIndex mt i
            in if isHighlightedMarker P hovered (mt_index mt ! i)
               then st\<lparr>highlightedMarkers := highlightedMarkers st @ [m]\<rparr>
               else if di_w m > 1 \<or> Some (di_x m) \<noteq> previousMarkerDrawnAtX st
               then st\<lparr>previousMarkerDrawnAtX := Some (di_x m),
                       calls := calls st @ drawOneMarker P tm m False\<rparr>
               else st)
      else st)"

text \<open>One turn of the outer loop: a missing row and a bucket are passed over.\<close>

definition rowStep ::
  "props \<Rightarrow> real \<Rightarrow> textMeasurement \<Rightarrow> MarkerIndex option \<Rightarrow> int \<Rightarrow> drawState \<Rightarrow> drawState" where
  "rowStep P dpr tm hovered rowIndex st =
     (case rowAt (markerTimingAndBuckets P) rowIndex of
        Some (Timing mt) \<Rightarrow>
          fold (markerStep P dpr tm hovered rowIndex mt) [0..<mt_length mt]
            (st\<lparr>previousMarkerDrawnAtX := None\<rparr>)
      | _ \<Rightarrow> st)"

definition drawMarkers ::
  "props \<Rightarrow> real \<Rightarrow> textMeasurement \<Rightarrow> MarkerIndex option \<Rightarrow> int \<Rightarrow> int \<Rightarrow> call list" where
  "drawMarkers P dpr tm hovered startRow endRow =
     (let st = fold (rowStep P dpr tm hovered) [startRow..endRow - 1]
                 \<lparr>calls = [Save, BeginPath,
                            Rect (marginLeft P) 0 (markerContainerWidth P) (containerHeight (vp P)),
                            Clip],
                  highlightedMarkers = [],
                  previousMarkerDrawnAtX = None\<rparr>
      in calls st @
         concat (map (\<lambda>m. drawOneMarker P tm m True) (highlightedMarkers st)) @
         [Restore])"

section \<open>Clearing and highlighting a row\<close>

definition highlightRow :: "props \<Rightarrow> int \<Rightarrow> call list" where
  "highlightRow P rowIndex =
     [SetFillStyle (Css ''rgba(40, 122, 169, 0.2)''),
      FillRect 0 (real_of_int rowIndex * rowHeight P - viewportTop (vp P))
        (containerWidth (vp P)) (rowHeight P - 1)]"

definition clearRow :: "props \<Rightarrow> int \<Rightarrow> call list" where
  "clearRow P rowIndex =
     [SetFillStyle (Css ''#fff''),
      FillRect 0 (real_of_int rowIndex * rowHeight P - viewportTop (vp P))
        (containerWidth (vp P)) (rowHeight P - 1)]"

section \<open>Separators and labels\<close>

text \<open>A drawing that can throw gives the calls made until then and the error, if any.\<close>

type_synonym outcome = "call list \<times> error option"

definition separatorLine :: "props \<Rightarrow> int \<Rightarrow> call" where
  "separatorLine P rowIndex =
     FillRect 0 (real_of_int (rowIndex + 1) * rowHeight P - viewportTop (vp P) - 1)
       (containerWidth (vp P) - marginRight P) 1"

text \<open>The marker name of one row; \<open>tml\<close> is the constant \<^verbatim>\<open>TIMELINE_MARGIN_LEFT\<close> of
  \<^verbatim>\<open>app-logic/constants\<close>.\<close>

definition drawLabel :: "props \<Rightarrow> textMeasurement \<Rightarrow> real \<Rightarrow> int \<Rightarrow> string \<Rightarrow> call list" where
  "drawLabel P tm tml rowIndex name =
     (let y = real_of_int rowIndex * rowHeight P - viewportTop (vp P);
          fittedText = toDOMString (getFittedText tm name tml)
      in [GetFittedText name tml] @
         (if timelineTrackOrganizationType P = ''active-tab''
          then [SetFillStyle (Css ''#ffffffbf''),
                GetTextWidth fittedText,
                FillRect 0 y (getTextWidth tm fittedText + LABEL_PADDING * 2) (rowHeight P),
                SetFillStyle (Css ''#000000'')]
          else []) @
         [FillText fittedText LABEL_PADDING (y + TEXT_OFFSET_TOP)])"

text \<open>One turn of the loop over the marker names: \<open>Inl\<close> when the row, or the row
  before it, is read as an object and is \<^verbatim>\<open>undefined\<close>.\<close>

definition labelStep :: "props \<Rightarrow> textMeasurement \<Rightarrow> real \<Rightarrow> int \<Rightarrow> error + call list" where
  "labelStep P tm tml rowIndex =
     (case rowAt (markerTimingAndBuckets P) rowIndex of
        None \<Rightarrow> Inl TypeError
      | Some (Bucket s) \<Rightarrow> Inr []
      | Some (Timing mt) \<Rightarrow>
          if rowIndex > 0
          then (case rowAt (markerTimingAndBuckets P) (rowIndex - 1) of
                  None \<Rightarrow> Inl TypeError
                | Some prevRow \<Rightarrow>
                    if Some (mt_name mt) = rowName prevRow then Inr []
                    else Inr (drawLabel P tm tml rowIndex (mt_name mt)))
          else Inr (drawLabel P tm tml rowIndex (mt_name mt)))"

fun labelLoop :: "props \<Rightarrow> textMeasurement \<Rightarrow> real \<Rightarrow> int list \<Rightarrow> outcome" where
  "labelLoop P tm tml [] = ([], None)"
| "labelLoop P tm tml (rowIndex # rest) =
     (case labelStep P tm tml rowIndex of
        Inl e \<Rightarrow> ([], Some e)
      | Inr cs \<Rightarrow> (case labelLoop P tm tml rest of (cs', e) \<Rightarrow> (cs @ cs', e)))"

definition bucketStep :: "props \<Rightarrow> int \<Rightarrow> call list" where
  "bucketStep P rowIndex =
     (case rowAt (markerTimingAndBuckets P) rowIndex of
        Some (Bucket bucketName) \<Rightarrow>
          (let y = real_of_int rowIndex * rowHeight P - viewportTop (vp P);
               usefulContainerWidth = containerWidth (vp P) - marginRight P
           in [SetFillStyle GREY_20,
               FillRect 0 (y - 1) usefulContainerWidth (rowHeight P),
               SetFillStyle GREY_30,
               FillRect 0 (y - 1) usefulContainerWidth 1,
               FillRect 0 (y + rowHeight P - 1) usefulContainerWidth 1,
               SetFillStyle (Css ''#000000''),
               FillText bucketName (LABEL_PADDING + marginLeft P) (y + TEXT_OFFSET_TOP)])
      | _ \<Rightarrow> [])"

definition drawSeparatorsAndLabels ::
  "props \<Rightarrow> textMeasurement \<Rightarrow> real \<Rightarrow> int \<Rightarrow> int \<Rightarrow> outcome" where
  "drawSeparatorsAndLabels P tm tml startRow endRow =
     (let separators =
            [SetFillStyle GREY_20] @
            (if timelineTrackOrganizationType P \<noteq> ''active-tab''
             then [FillRect (marginLeft P - 1) 0 1 (containerHeight (vp P))] else []) @
            map (separatorLine P) [startRow..endRow - 1] @
            [SetFillStyle (Css ''#000000'')]
      in case labelLoop P tm tml [startRow..endRow - 1] of
           (labels, Some e) \<Rightarrow> (separators @ labels, Some e)
         | (labels, None) \<Rightarrow>
             (separators @ labels @ concat (map (bucketStep P) [startRow..endRow - 1]), None))"

section \<open>The row index\<close>

text \<open>The function that \<^verbatim>\<open>_getMarkerIndexToTimingRow\<close> memoizes: the two loops that
  fill a new \<^verbatim>\<open>Map\<close>.\<close>

definition indexTimingRow ::
  "nat \<Rightarrow> markerTiming \<Rightarrow> (MarkerIndex \<rightharpoonup> int) \<Rightarrow> (MarkerIndex \<rightharpoonup> int)" where
  "indexTimingRow rowIndex mt m =
     fold (\<lambda>timingIndex acc. acc(mt_index mt ! timingIndex \<mapsto> int rowIndex))
       [0..<mt_length mt] m"

definition indexRow :: "row list \<Rightarrow> nat \<Rightarrow> (MarkerIndex \<rightharpoonup> int) \<Rightarrow> (MarkerIndex \<rightharpoonup> int)" where
  "indexRow rows rowIndex m =
     (case rows ! rowIndex of
        Bucket s \<Rightarrow> m
      | Timing mt \<Rightarrow> indexTimingRow rowIndex mt m)"

definition computeMarkerIndexToTimingRow :: "row list \<Rightarrow> (MarkerIndex \<rightharpoonup> int)" where
  "computeMarkerIndexToTimingRow rows = fold (indexRow rows) [0..<length rows] Map.empty"

text \<open>
  \<^verbatim>\<open>memoize(..., { cache: new WeakMap() })\<close> keys its cache by the identity of the
  argument. Identities are addresses: \<open>heap\<close> gives the rows of the array at an
  address, the cache maps the address of an array to the \<^verbatim>\<open>Map\<close> instance built for
  it, and an instance is named by its position in the list of the instances built
  so far.
\<close>

record memoState =
  memoCache :: "nat \<rightharpoonup> nat"
  instances :: "(MarkerIndex \<rightharpoonup> int) list"

definition getMarkerIndexToTimingRow ::
  "(nat \<Rightarrow> row list) \<Rightarrow> memoState \<Rightarrow> nat \<Rightarrow> nat \<times> memoState" where
  "getMarkerIndexToTimingRow heap st a =
     (case memoCache st a of
        Some inst \<Rightarrow> (inst, st)
      | None \<Rightarrow>
          (length (instances st),
           st\<lparr>memoCache := (memoCache st)(a \<mapsto> length (instances st)),
              instances := instances st @ [computeMarkerIndexToTimingRow (heap a)]\<rparr>))"

text \<open>The state of the memoized function after the lookups \<open>as\<close>, in order, starting
  with the empty cache it is created with.\<close>

definition memoAfter :: "(nat \<Rightarrow> row list) \<Rightarrow> nat list \<Rightarrow> memoState" where
  "memoAfter heap as =
     fold (\<lambda>a st. snd (getMarkerIndexToTimingRow heap st a)) as
       \<lparr>memoCache = Map.empty, instances = []\<rparr>"

text \<open>The cache is valid when every entry names an instance that was built, holding the
  index of the rows of its key.\<close>

definition validMemo :: "(nat \<Rightarrow> row list) \<Rightarrow> memoState \<Rightarrow> bool" where
  "validMemo heap st = (\<forall>a i. memoCache st a = Some i \<longrightarrow>
      i < length (instances st) \<and> instances st ! i = computeMarkerIndexToTimingRow (heap a))"

section \<open>The redraw controller\<close>

record chartCanvasHoverInfo =
  hoveredItem :: "hoveredMarkerChartItems option"
  prevHoveredItem :: "hoveredMarkerChartItems option"
  isHoveredOnlyDifferent :: bool

text \<open>The operations \<^verbatim>\<open>drawCanvas\<close> issues after setting the line width, in order.\<close>

datatype step =
    FullClear
  | HighlightRow int
  | ClearRow int
  | DrawMarkers "MarkerIndex option" int int
  | DrawSeparatorsAndLabels int int

definition rowOfMarker :: "props \<Rightarrow> MarkerIndex option \<Rightarrow> int option" where
  "rowOfMarker P m =
     (case m of
        None \<Rightarrow> None
      | Some mi \<Rightarrow> computeMarkerIndexToTimingRow (markerTimingAndBuckets P) mi)"

text \<open>The row of a hover state: the row of its marker, or in the active tab view, when
  that is unknown, the row of its label.\<close>

definition hoveredRow :: "props \<Rightarrow> hoveredMarkerChartItems option \<Rightarrow> int option" where
  "hoveredRow P items =
     (let hoveredMarker = (case items of None \<Rightarrow> None | Some h \<Rightarrow> markerIndex h);
          hoveredLabel = (case items of None \<Rightarrow> None | Some h \<Rightarrow> rowIndexOfLabel h);
          row = rowOfMarker P hoveredMarker
      in if timelineTrackOrganizationType P = ''active-tab'' \<and> row = None \<and> hoveredLabel \<noteq> None
         then hoveredLabel else row)"

definition drawCanvasSteps :: "props \<Rightarrow> chartCanvasHoverInfo \<Rightarrow> step list" where
  "drawCanvasSteps P hoverInfo =
     (let hoveredMarker = (case hoveredItem hoverInfo of None \<Rightarrow> None | Some h \<Rightarrow> markerIndex h);
          hoveredLabel = (case hoveredItem hoverInfo of None \<Rightarrow> None | Some h \<Rightarrow> rowIndexOfLabel h);
          startRow = \<lfloor>viewportTop (vp P) / rowHeight P\<rfloor>;
          endRow = min \<lceil>viewportBottom (vp P) / rowHeight P\<rceil>
                     (int (length (markerTimingAndBuckets P)));
          rightClickedRow = rowOfMarker P (rightClickedMarkerIndex P);
          newRow = hoveredRow P (hoveredItem hoverInfo)
      in if isHoveredOnlyDifferent hoverInfo
         then (let oldRow = hoveredRow P (prevHoveredItem hoverInfo)
               in (case newRow of
                     None \<Rightarrow> []
                   | Some n \<Rightarrow>
                       [ClearRow n, HighlightRow n, DrawMarkers hoveredMarker n (n + 1)] @
                       (if hoveredLabel = None then [DrawSeparatorsAndLabels n (n + 1)] else [])) @
                  (case oldRow of
                     None \<Rightarrow> []
                   | Some r \<Rightarrow>
                       if oldRow \<noteq> newRow
                       then (if oldRow \<noteq> rightClickedRow then [ClearRow r] else []) @
                            [DrawMarkers hoveredMarker r (r + 1),
                             DrawSeparatorsAndLabels r (r + 1)]
                       else []))
         else [FullClear] @
              (case rightClickedRow of
                 Some r \<Rightarrow> [HighlightRow r]
               | None \<Rightarrow> (case newRow of Some n \<Rightarrow> [HighlightRow n] | None \<Rightarrow> [])) @
              [DrawMarkers hoveredMarker startRow endRow,
               DrawSeparatorsAndLabels startRow endRow])"

definition runStep :: "props \<Rightarrow> real \<Rightarrow> textMeasurement \<Rightarrow> real \<Rightarrow> step \<Rightarrow> outcome" where
  "runStep P dpr tm tml s =
     (case s of
        FullClear \<Rightarrow>
          ([SetFillStyle (Css ''#ffffff''),
            FillRect 0 0 (containerWidth (vp P)) (containerHeight (vp P))], None)
      | HighlightRow r \<Rightarrow> (highlightRow P r, None)
      | ClearRow r \<Rightarrow> (clearRow P r, None)
      | DrawMarkers hovered startRow endRow \<Rightarrow> (drawMarkers P dpr tm hovered startRow endRow, None)
      | DrawSeparatorsAndLabels startRow endRow \<Rightarrow>
          drawSeparatorsAndLabels P tm tml startRow endRow)"

fun runSteps :: "props \<Rightarrow> real \<Rightarrow> textMeasurement \<Rightarrow> real \<Rightarrow> step list \<Rightarrow> outcome" where
  "runSteps P dpr tm tml [] = ([], None)"
| "runSteps P dpr tm tml (s # rest) =
     (case runStep P dpr tm tml s of
        (cs, Some e) \<Rightarrow> (cs, Some e)
      | (cs, None) \<Rightarrow> (case runSteps P dpr tm tml rest of (cs', e) \<Rightarrow> (cs @ cs', e)))"

text \<open>\<open>cssToUserScale\<close> is the field of the \<^verbatim>\<open>scale\<close> argument.\<close>

definition drawCanvas ::
  "props \<Rightarrow> real \<Rightarrow> textMeasurement \<Rightarrow> real \<Rightarrow> real \<Rightarrow> chartCanvasHoverInfo \<Rightarrow> outcome" where
  "drawCanvas P dpr tm tml cssToUserScale hoverInfo =
     (if cssToUserScale \<noteq> 1 then ([], Some ScaleError)
      else (case runSteps P dpr tm tml (drawCanvasSteps P hoverInfo) of
              (cs, e) \<Rightarrow> (SetLineWidth 1 # cs, e)))"

section \<open>The words of the specification\<close>

text \<open>The coordinate mapper as the specification writes it, to compare the code with.\<close>

definition spec_timeToUnitInterval :: "real \<Rightarrow> real \<Rightarrow> real \<Rightarrow> real" where
  "spec_timeToUnitInterval t rStart rEnd = (t - rStart) / (rEnd - rStart)"

definition spec_unitIntervalToTime :: "real \<Rightarrow> real \<Rightarrow> real \<Rightarrow> real" where
  "spec_unitIntervalToTime u rStart rEnd = rStart + u * (rEnd - rStart)"

definition spec_unitIntervalToPixel :: "real \<Rightarrow> real \<Rightarrow> real \<Rightarrow> real \<Rightarrow> real \<Rightarrow> real \<Rightarrow> real" where
  "spec_unitIntervalToPixel u vLeft vRight cWidth mLeft mRight =
     mLeft + (u - vLeft) * (cWidth - mLeft - mRight) / (vRight - vLeft)"

definition spec_devicePixelAligned :: "real \<Rightarrow> real \<Rightarrow> real" where
  "spec_devicePixelAligned v dpr = real_of_int (round (v * dpr)) / dpr"

text \<open>
  The drop policy as the specification writes it: of the markers \<open>0, \<dots>, k - 1\<close> of a
  row, the in-bounds, non-highlighted ones that are kept. A marker is dropped when its
  rounded width is at most one pixel and its rounded \<open>x\<close> is the \<open>x\<close> of the marker
  kept last before it.
\<close>

fun spec_kept ::
  "props \<Rightarrow> real \<Rightarrow> MarkerIndex option \<Rightarrow> int \<Rightarrow> markerTiming \<Rightarrow> nat \<Rightarrow> nat list" where
  "spec_kept P dpr hovered rowIndex mt 0 = []"
| "spec_kept P dpr hovered rowIndex mt (Suc k) =
     (let before = spec_kept P dpr hovered rowIndex mt k;
          m = markerGeometry P dpr rowIndex mt k
      in if inBounds P mt k \<and> \<not> isHighlightedMarker P hovered (mt_index mt ! k) \<and>
            \<not> (di_w m \<le> 1 \<and> before \<noteq> [] \<and>
               di_x m = di_x (markerGeometry P dpr rowIndex mt (last before)))
         then before @ [k] else before)"

text \<open>The vertices of the paths a sequence of calls traces.\<close>

fun pathPoints :: "call list \<Rightarrow> (real \<times> real) list" where
  "pathPoints [] = []"
| "pathPoints (MoveTo px py # cs) = (px, py) # pathPoints cs"
| "pathPoints (LineTo px py # cs) = (px, py) # pathPoints cs"
| "pathPoints (c # cs) = pathPoints cs"

text \<open>
  The vertical band of a row on the surface, and the vertical span of what a call
  paints or adds to the path: the top and the height of a rectangle, the \<open>y\<close> of a
  path vertex, the baseline of a text.
\<close>

definition rowTop :: "props \<Rightarrow> int \<Rightarrow> real" where
  "rowTop P r = real_of_int r * rowHeight P - viewportTop (vp P)"

definition inBand :: "props \<Rightarrow> int \<Rightarrow> real \<Rightarrow> real \<Rightarrow> bool" where
  "inBand P r y h =
     (rowTop P r \<le> y \<and> y \<le> rowTop P r + rowHeight P \<and>
      rowTop P r \<le> y + h \<and> y + h \<le> rowTop P r + rowHeight P)"

fun paintedSpan :: "call \<Rightarrow> (real \<times> real) option" where
  "paintedSpan (FillRect px py w h) = Some (py, h)"
| "paintedSpan (Rect px py w h) = Some (py, h)"
| "paintedSpan (MoveTo px py) = Some (py, 0)"
| "paintedSpan (LineTo px py) = Some (py, 0)"
| "paintedSpan (FillText t px py) = Some (py, 0)"
| "paintedSpan c = None"

definition spanInBand :: "props \<Rightarrow> int \<Rightarrow> call \<Rightarrow> bool" where
  "spanInBand P r c = (case paintedSpan c of None \<Rightarrow> True | Some (y, h) \<Rightarrow> inBand P r y h)"

text \<open>A call stays within the hovered rows when it has no span or its span is in the
  band of the new or of the old row.\<close>

definition withinRows :: "props \<Rightarrow> int option \<Rightarrow> int option \<Rightarrow> call \<Rightarrow> bool" where
  "withinRows P newRow oldRow c =
     (paintedSpan c = None \<or>
      (case newRow of None \<Rightarrow> False | Some r \<Rightarrow> spanInBand P r c) \<or>
      (case oldRow of None \<Rightarrow> False | Some r \<Rightarrow> spanInBand P r c))"

definition wf_rows :: "row list \<Rightarrow> bool" where
  "wf_rows rows = (\<forall>r \<in> set rows. case r of Timing mt \<Rightarrow> wf_markerTiming mt | Bucket s \<Rightarrow> True)"

section \<open>Example inputs\<close>

text \<open>One row with the intervals \<open>[0, 10]\<close> and \<open>[20, 30]\<close>, in a chart where one pixel is
  one millisecond and the dot radius is six pixels.\<close>

definition exTiming :: markerTiming where
  "exTiming = \<lparr>mt_start = [0, 20], mt_end = [10, 30], mt_index = [7, 8],
     mt_label = [''a'', ''b''], mt_name = ''DOMEvent'', mt_length = 2\<rparr>"

definition exProps :: props where
  "exProps = \<lparr>rangeStart = 0, rangeEnd = 100, markerTimingAndBuckets = [Timing exTiming],
     rowHeight = 24, marginLeft = 0, marginRight = 0, selectedMarkerIndex = None,
     rightClickedMarkerIndex = None, timelineTrackOrganizationType = ''full'',
     vp = \<lparr>containerWidth = 100, containerHeight = 24, viewportLeft = 0, viewportRight = 1,
            viewportTop = 0, viewportBottom = 24\<rparr>\<rparr>"





text \<open>A time range of length zero, and the active tab view.\<close>

definition exDegenerateProps :: props where
  "exDegenerateProps = exProps\<lparr>rangeStart := 5, rangeEnd := 5\<rparr>"

definition exActiveTabProps :: props where
  "exActiveTabProps = exProps\<lparr>timelineTrackOrganizationType := ''active-tab''\<rparr>"

text \<open>Three instant markers, the first two on the same pixel.\<close>

definition exDotsTiming :: markerTiming where
  "exDotsTiming = \<lparr>mt_start = [10, 51 / 5, 30], mt_end = [10, 51 / 5, 30],
     mt_index = [1, 2, 3], mt_label = [''x'', ''y'', ''z''], mt_name = ''Paint'',
     mt_length = 3\<rparr>"

definition exDotsProps :: props where
  "exDotsProps = exProps\<lparr>markerTimingAndBuckets := [Timing exDotsTiming]\<rparr>"

definition exTextMeasurement :: textMeasurement where
  "exTextMeasurement = \<lparr>minWidth = 10, getFittedText = (\<lambda>t w. Some t),
     getTextWidth = (\<lambda>t. 6 * real (length t))\<rparr>"

text \<open>A bucket and two timing rows, in a chart of three rows with a label gutter of 150
  pixels; marker 5 is in row 1 and marker 7 in row 2.\<close>

definition exRowA :: markerTiming where
  "exRowA = \<lparr>mt_start = [0], mt_end = [10], mt_index = [5],
     mt_label = [''a''], mt_name = ''DOMEvent'', mt_length = 1\<rparr>"

definition exRowB :: markerTiming where
  "exRowB = \<lparr>mt_start = [20], mt_end = [30], mt_index = [7],
     mt_label = [''b''], mt_name = ''Paint'', mt_length = 1\<rparr>"

definition exTwoRowProps :: props where
  "exTwoRowProps = \<lparr>rangeStart = 0, rangeEnd = 100,
     markerTimingAndBuckets = [Bucket ''Other'', Timing exRowA, Timing exRowB],
     rowHeight = 24, marginLeft = 150, marginRight = 0, selectedMarkerIndex = None,
     rightClickedMarkerIndex = None, timelineTrackOrganizationType = ''full'',
     vp = \<lparr>containerWidth = 250, containerHeight = 72, viewportLeft = 0, viewportRight = 1,
            viewportTop = 0, viewportBottom = 72\<rparr>\<rparr>"

definition exHoverInfo :: chartCanvasHoverInfo where
  "exHoverInfo = \<lparr>hoveredItem = Some \<lparr>markerIndex = Some 7, rowIndexOfLabel = None\<rparr>,
     prevHoveredItem = Some \<lparr>markerIndex = Some 5, rowIndexOfLabel = None\<rparr>,
     isHoveredOnlyDifferent = True\<rparr>"

text \<open>The same identifier in two rows.\<close>

definition exRepeatedRows :: "row list" where
  "exRepeatedRows = [Timing exRowA, Timing (exRowA\<lparr>mt_name := ''Paint''\<rparr>)]"

section \<open>Binary search: the insertion point\<close>


lemma bisectionRight_loop_sorted:
  "sorted array \<Longrightarrow> low \<le> high \<Longrightarrow> high \<le> length array \<Longrightarrow>
   (\<forall>i<low. array ! i \<le> x) \<Longrightarrow> (\<forall>i. high \<le> i \<and> i < length array \<longrightarrow> x < array ! i) \<Longrightarrow>
   (\<forall>i<bisectionRight_loop array x low high. array ! i \<le> x) \<and>
   (\<forall>i. bisectionRight_loop array x low high \<le> i \<and> i < length array \<longrightarrow> x < array ! i)"
proof (induction array x low high rule: bisectionRight_loop.induct)
  case (1 array x low high)
  show ?case
  proof (cases "low < high")
    case False
    then have "bisectionRight_loop array x low high = low" by (simp add: bisectionRight_loop.simps)
    moreover have "low = high" using False "1.prems" by simp
    ultimately show ?thesis using "1.prems" by simp
  next
    case True
    define mid where "mid = (low + high) div 2"
    have m: "low \<le> mid" "mid < high" using True by (auto simp: mid_def)
    show ?thesis
    proof (cases "x < array ! mid")
      case lt: True
      have r: "bisectionRight_loop array x low high = bisectionRight_loop array x low mid"
        using True lt by (subst bisectionRight_loop.simps) (simp add: mid_def Let_def)
      have "\<forall>i. mid \<le> i \<and> i < length array \<longrightarrow> x < array ! i"
      proof (intro allI impI)
        fix i assume "mid \<le> i \<and> i < length array"
        then have "array ! mid \<le> array ! i" using "1.prems"(1) by (simp add: sorted_nth_mono)
        then show "x < array ! i" using lt by simp
      qed
      with "1.IH"(1)[OF True mid_def lt "1.prems"(1)] m "1.prems"
      show ?thesis unfolding r by simp
    next
      case ge: False
      have r: "bisectionRight_loop array x low high = bisectionRight_loop array x (mid + 1) high"
        using True ge by (subst bisectionRight_loop.simps) (simp add: mid_def Let_def)
      have "\<forall>i<mid + 1. array ! i \<le> x"
      proof (intro allI impI)
        fix i assume "i < mid + 1"
        then have "array ! i \<le> array ! mid" using "1.prems"(1,3) m by (simp add: sorted_nth_mono)
        then show "array ! i \<le> x" using ge by simp
      qed
      with "1.IH"(2)[OF True mid_def ge "1.prems"(1)] m "1.prems"
      show ?thesis unfolding r by simp
    qed
  qed
qed


lemma bisectionRight_sorted:
  assumes "sorted array"
  shows "\<forall>i<bisectionRight array x. array ! i \<le> x"
    and "\<forall>i. bisectionRight array x \<le> i \<and> i < length array \<longrightarrow> x < array ! i"
  using bisectionRight_loop_sorted[of array 0 "length array" x] assms
  by (simp_all add: bisectionRight_def)

section \<open>Lemmas on hit testing\<close>

lemma hitTest_marker_part:
  assumes "rowAt (markerTimingAndBuckets P) (hitRowIndex P y) = Some (Timing mt)"
    and "mt_length mt \<noteq> 0"
  shows "resultMarker (hitTest P tm x y) = None \<or> resultMarker (hitTest P tm x y) = hitMarker P mt x"
    and "\<not> x < marginLeft P - dotRadius P \<Longrightarrow> \<not> isl (hitTest P tm x y) \<Longrightarrow>
         resultMarker (hitTest P tm x y) = hitMarker P mt x"
  using assms
  by (auto simp: hitTest_def resultMarker_def hoveredItems_def split: sum.splits option.splits)



section \<open>Lemmas on drawing\<close>

lemma width_as_difference:
  fixes a b c l m v :: real
  shows "(a - b) * m / v = (l + (a - c) * m / v) - (l + (b - c) * m / v)"
proof -
  have "(l + (a - c) * m / v) - (l + (b - c) * m / v) = ((a - c) * m - (b - c) * m) / v"
    by (simp add: diff_divide_distrib)
  also have "(a - c) * m - (b - c) * m = (a - b) * m"
    by (simp add: algebra_simps)
  finally show ?thesis by simp
qed

text \<open>The inner loop of drawMarkers against the policy in the specification's words:
  after \<open>k\<close> turns the markers drawn are the kept ones, and the remembered \<open>x\<close> is the
  one of the marker kept last.\<close>

lemma markerStep_fold_kept:
  assumes "previousMarkerDrawnAtX st = None"
  shows "fold (markerStep P dpr tm hovered rowIndex mt) [0..<k] st =
     st\<lparr>calls := calls st @
            concat (map (\<lambda>j. drawOneMarker P tm (markerGeometry P dpr rowIndex mt j) False)
                      (spec_kept P dpr hovered rowIndex mt k)),
        highlightedMarkers := highlightedMarkers st @
            map (markerGeometry P dpr rowIndex mt)
              (filter (\<lambda>j. inBounds P mt j \<and> isHighlightedMarker P hovered (mt_index mt ! j))
                 [0..<k]),
        previousMarkerDrawnAtX :=
          (if spec_kept P dpr hovered rowIndex mt k = [] then None
           else Some (di_x (markerGeometry P dpr rowIndex mt
                              (last (spec_kept P dpr hovered rowIndex mt k)))))\<rparr>"
proof (induction k)
  case 0
  then show ?case using assms by simp
next
  case (Suc k)
  show ?case
    unfolding upt_Suc_append[OF le0] fold_append comp_def Suc.IH
    by (simp add: markerStep_def Let_def)
qed

lemma full_repaint_clears_first:
  assumes "\<not> isHoveredOnlyDifferent hoverInfo"
  shows "\<exists>cs e. drawCanvas P dpr tm tml 1 hoverInfo =
           (SetLineWidth 1 # SetFillStyle (Css ''#ffffff'') #
            FillRect 0 0 (containerWidth (vp P)) (containerHeight (vp P)) # cs, e)"
proof -
  obtain rest where steps: "drawCanvasSteps P hoverInfo = FullClear # rest"
    using assms by (simp add: drawCanvasSteps_def Let_def)
  obtain cs' e where r: "runSteps P dpr tm tml rest = (cs', e)"
    by (cases "runSteps P dpr tm tml rest")
  show ?thesis
    by (simp add: drawCanvas_def steps runStep_def r)
qed

section \<open>Lemmas on the row index and its cache\<close>

lemma indexTimingRow_prefix:
  "n \<le> length idx \<Longrightarrow>
   fold (\<lambda>timingIndex acc. acc(idx ! timingIndex \<mapsto> v)) [0..<n] m k =
     (if k \<in> set (take n idx) then Some v else m k)"
proof (induction n)
  case 0
  then show ?case by simp
next
  case (Suc n)
  then have "take (Suc n) idx = take n idx @ [idx ! n]"
    by (simp add: take_Suc_conv_app_nth)
  with Suc show ?case by auto
qed

lemma indexTimingRow_apply:
  assumes "wf_markerTiming mt"
  shows "indexTimingRow r mt m k = (if k \<in> set (mt_index mt) then Some (int r) else m k)"
  using indexTimingRow_prefix[of "mt_length mt" "mt_index mt" "int r" m k] assms
  by (simp add: indexTimingRow_def wf_markerTiming_def)

lemma wf_rows_nth: "wf_rows rows \<Longrightarrow> r < length rows \<Longrightarrow> rows ! r = Timing mt \<Longrightarrow> wf_markerTiming mt"
  by (force simp: wf_rows_def dest: nth_mem)

lemma indexRow_apply:
  assumes "wf_rows rows" "r < length rows"
  shows "indexRow rows r m k =
     (case rows ! r of
        Timing mt \<Rightarrow> if k \<in> set (mt_index mt) then Some (int r) else m k
      | Bucket s \<Rightarrow> m k)"
  using assms by (auto simp: indexRow_def indexTimingRow_apply wf_rows_nth split: row.splits)

lemma index_prefix_some:
  assumes "wf_rows rows"
  shows "n \<le> length rows \<Longrightarrow> fold (indexRow rows) [0..<n] Map.empty k = Some z \<Longrightarrow>
         \<exists>r<n. \<exists>mt. z = int r \<and> rows ! r = Timing mt \<and> k \<in> set (mt_index mt)"
proof (induction n arbitrary: z)
  case 0
  then show ?case by simp
next
  case (Suc n)
  have n: "n < length rows" "n \<le> length rows" using Suc.prems by simp_all
  show ?case
  proof (cases "rows ! n")
    case (Bucket s)
    then have "fold (indexRow rows) [0..<n] Map.empty k = Some z"
      using Suc.prems(2) by (simp add: indexRow_apply[OF assms n(1)])
    from Suc.IH[OF n(2) this] show ?thesis by (auto intro: less_SucI)
  next
    case (Timing mt)
    show ?thesis
    proof (cases "k \<in> set (mt_index mt)")
      case True
      then have "z = int n" using Suc.prems(2) Timing by (simp add: indexRow_apply[OF assms n(1)])
      then show ?thesis using Timing True by auto
    next
      case False
      then have "fold (indexRow rows) [0..<n] Map.empty k = Some z"
        using Suc.prems(2) Timing by (simp add: indexRow_apply[OF assms n(1)])
      from Suc.IH[OF n(2) this] show ?thesis by (auto intro: less_SucI)
    qed
  qed
qed

lemma index_prefix_last:
  assumes "wf_rows rows"
  shows "n \<le> length rows \<Longrightarrow> r < n \<Longrightarrow> rows ! r = Timing mt \<Longrightarrow> k \<in> set (mt_index mt) \<Longrightarrow>
         (\<forall>r' mt'. r < r' \<and> r' < n \<and> rows ! r' = Timing mt' \<longrightarrow> k \<notin> set (mt_index mt')) \<Longrightarrow>
         fold (indexRow rows) [0..<n] Map.empty k = Some (int r)"
proof (induction n)
  case 0
  then show ?case by simp
next
  case (Suc n)
  have n: "n < length rows" "n \<le> length rows" using Suc.prems by simp_all
  show ?case
  proof (cases "r = n")
    case True
    then show ?thesis using Suc.prems by (simp add: indexRow_apply[OF assms n(1)])
  next
    case False
    then have rn: "r < n" using Suc.prems(2) by simp
    have later: "\<forall>r' mt'. r < r' \<and> r' < n \<and> rows ! r' = Timing mt' \<longrightarrow> k \<notin> set (mt_index mt')"
      using Suc.prems(5) by (meson less_SucI)
    have ih: "fold (indexRow rows) [0..<n] Map.empty k = Some (int r)"
      by (rule Suc.IH[OF n(2) rn Suc.prems(3,4) later])
    have "\<And>mt'. rows ! n = Timing mt' \<Longrightarrow> k \<notin> set (mt_index mt')"
      using Suc.prems(5) rn by (meson lessI)
    then show ?thesis using ih
      by (simp add: indexRow_apply[OF assms n(1)] split: row.splits)
  qed
qed

lemma validMemo_step:
  "validMemo heap st \<Longrightarrow> validMemo heap (snd (getMarkerIndexToTimingRow heap st a))"
  by (auto simp: validMemo_def getMarkerIndexToTimingRow_def nth_append less_Suc_eq split: option.splits)

lemma memoAfter_snoc:
  "memoAfter heap (as @ [a]) = snd (getMarkerIndexToTimingRow heap (memoAfter heap as) a)"
  by (simp add: memoAfter_def)

lemma validMemo_memoAfter: "validMemo heap (memoAfter heap as)"
proof (induction as rule: rev_induct)
  case Nil
  then show ?case by (simp add: memoAfter_def validMemo_def)
next
  case (snoc a as)
  then show ?case by (simp add: memoAfter_snoc validMemo_step)
qed

lemma dom_memoAfter: "dom (memoCache (memoAfter heap as)) = set as"
proof (induction as rule: rev_induct)
  case Nil
  then show ?case by (simp add: memoAfter_def)
next
  case (snoc a as)
  show ?case
  proof (cases "memoCache (memoAfter heap as) a")
    case None
    then have "dom (memoCache (memoAfter heap (as @ [a]))) = insert a (dom (memoCache (memoAfter heap as)))"
      by (simp add: memoAfter_snoc getMarkerIndexToTimingRow_def)
    then show ?thesis using snoc by simp
  next
    case (Some i)
    then have "a \<in> dom (memoCache (memoAfter heap as))" by auto
    moreover have "memoAfter heap (as @ [a]) = memoAfter heap as"
      using Some by (simp add: memoAfter_snoc getMarkerIndexToTimingRow_def)
    ultimately show ?thesis using snoc by auto
  qed
qed

section \<open>Lemmas on the hover-only repaint\<close>

lemma drawCanvasSteps_hover_only:
  assumes "isHoveredOnlyDifferent hoverInfo"
  shows "drawCanvasSteps P hoverInfo =
    (let hoveredMarker = (case hoveredItem hoverInfo of None \<Rightarrow> None | Some h \<Rightarrow> markerIndex h);
         hoveredLabel = (case hoveredItem hoverInfo of None \<Rightarrow> None | Some h \<Rightarrow> rowIndexOfLabel h);
         newRow = hoveredRow P (hoveredItem hoverInfo);
         oldRow = hoveredRow P (prevHoveredItem hoverInfo)
     in (case newRow of
           None \<Rightarrow> []
         | Some n \<Rightarrow>
             [ClearRow n, HighlightRow n, DrawMarkers hoveredMarker n (n + 1)] @
             (if hoveredLabel = None then [DrawSeparatorsAndLabels n (n + 1)] else [])) @
        (case oldRow of
           None \<Rightarrow> []
         | Some r \<Rightarrow>
             if oldRow = newRow then []
             else (if oldRow = rowOfMarker P (rightClickedMarkerIndex P) then [] else [ClearRow r]) @
                  [DrawMarkers hoveredMarker r (r + 1), DrawSeparatorsAndLabels r (r + 1)]))"
  using assms by (simp add: drawCanvasSteps_def Let_def split: option.splits)

lemma runSteps_no_throw:
  "\<forall>s \<in> set steps. snd (runStep P dpr tm tml s) = None \<Longrightarrow>
   runSteps P dpr tm tml steps = (concat (map (\<lambda>s. fst (runStep P dpr tm tml s)) steps), None)"
proof (induction steps)
  case Nil
  then show ?case by simp
next
  case (Cons s steps)
  then have "snd (runStep P dpr tm tml s) = None" by simp
  then obtain cs where "runStep P dpr tm tml s = (cs, None)"
    by (cases "runStep P dpr tm tml s") simp
  with Cons show ?case by simp
qed

lemma rowAt_pred:
  assumes "rowAt rows r = Some row" and "0 < r"
  shows "\<exists>prevRow. rowAt rows (r - 1) = Some prevRow"
  using assms by (auto simp: rowAt_def split: if_splits)

text \<open>The separators and the label of one timing row: no throw.\<close>

lemma drawSeparatorsAndLabels_timing_row:
  assumes "rowAt (markerTimingAndBuckets P) r = Some (Timing mt)"
  shows "drawSeparatorsAndLabels P tm tml r (r + 1) =
           ([SetFillStyle GREY_20] @
            (if timelineTrackOrganizationType P \<noteq> ''active-tab''
             then [FillRect (marginLeft P - 1) 0 1 (containerHeight (vp P))] else []) @
            [separatorLine P r, SetFillStyle (Css ''#000000'')] @
            (if 0 < r \<and> (\<exists>prevRow. rowAt (markerTimingAndBuckets P) (r - 1) = Some prevRow \<and>
                            Some (mt_name mt) = rowName prevRow)
             then [] else drawLabel P tm tml r (mt_name mt)), None)"
proof -
  have u: "[r..r + 1 - 1] = [r]" by simp
  have b: "bucketStep P r = []" using assms by (simp add: bucketStep_def)
  have l: "labelStep P tm tml r =
        Inr (if 0 < r \<and> (\<exists>prevRow. rowAt (markerTimingAndBuckets P) (r - 1) = Some prevRow \<and>
                            Some (mt_name mt) = rowName prevRow)
             then [] else drawLabel P tm tml r (mt_name mt))"
  proof (cases "0 < r")
    case True
    with rowAt_pred[OF assms] obtain prevRow
      where "rowAt (markerTimingAndBuckets P) (r - 1) = Some prevRow" by blast
    then show ?thesis using assms True by (simp add: labelStep_def)
  next
    case False
    then show ?thesis using assms by (simp add: labelStep_def)
  qed
  show ?thesis unfolding drawSeparatorsAndLabels_def u by (simp add: l b)
qed

lemma drawMarkers_one_row:
  assumes "rowAt (markerTimingAndBuckets P) r = Some (Timing mt)"
  shows "drawMarkers P dpr tm hovered r (r + 1) =
           [Save, BeginPath,
            Rect (marginLeft P) 0 (markerContainerWidth P) (containerHeight (vp P)), Clip] @
           concat (map (\<lambda>j. drawOneMarker P tm (markerGeometry P dpr r mt j) False)
                     (spec_kept P dpr hovered r mt (mt_length mt))) @
           concat (map (\<lambda>j. drawOneMarker P tm (markerGeometry P dpr r mt j) True)
                     (filter (\<lambda>j. inBounds P mt j \<and>
                                   isHighlightedMarker P hovered (mt_index mt ! j))
                        [0..<mt_length mt])) @
           [Restore]"
proof -
  have u: "[r..r + 1 - 1] = [r]" by simp
  show ?thesis
    unfolding drawMarkers_def u
    by (simp add: rowStep_def assms markerStep_fold_kept Let_def comp_def)
qed

lemma drawOneMarker_in_band:
  assumes "di_y m = rowTop P r" and "di_h m = rowHeight P - 1" and "TEXT_OFFSET_TOP \<le> rowHeight P"
    and "c \<in> set (drawOneMarker P tm m isHighlighted)"
  shows "spanInBand P r c"
  using assms
  by (auto simp: drawOneMarker_def drawOneInstantMarker_def drawOneIntervalMarker_def Let_def
      spanInBand_def inBand_def TEXT_OFFSET_TOP_def split: if_splits option.splits)

lemma markerGeometry_band:
  "di_y (markerGeometry P dpr r mt j) = rowTop P r"
  "di_h (markerGeometry P dpr r mt j) = rowHeight P - 1"
  by (simp_all add: markerGeometry_def Let_def rowTop_def)

lemma drawMarkers_in_band:
  assumes "rowAt (markerTimingAndBuckets P) r = Some (Timing mt)"
    and "TEXT_OFFSET_TOP \<le> rowHeight P"
    and "c \<in> set (drawMarkers P dpr tm hovered r (r + 1))"
  shows "spanInBand P r c \<or>
         c = Rect (marginLeft P) 0 (markerContainerWidth P) (containerHeight (vp P))"
  using assms(3) unfolding drawMarkers_one_row[OF assms(1)]
  by (auto simp: spanInBand_def dest: drawOneMarker_in_band[OF markerGeometry_band assms(2)])

lemma drawSeparatorsAndLabels_in_band:
  assumes "rowAt (markerTimingAndBuckets P) r = Some (Timing mt)"
    and "TEXT_OFFSET_TOP \<le> rowHeight P"
    and "c \<in> set (fst (drawSeparatorsAndLabels P tm tml r (r + 1)))"
  shows "spanInBand P r c \<or>
         (timelineTrackOrganizationType P \<noteq> ''active-tab'' \<and>
          c = FillRect (marginLeft P - 1) 0 1 (containerHeight (vp P)))"
  using assms(2,3) unfolding drawSeparatorsAndLabels_timing_row[OF assms(1)]
  by (auto simp: spanInBand_def inBand_def rowTop_def separatorLine_def drawLabel_def Let_def
      TEXT_OFFSET_TOP_def algebra_simps split: if_splits)

lemma clear_highlight_in_band:
  assumes "1 \<le> rowHeight P"
  shows "c \<in> set (clearRow P r) \<Longrightarrow> spanInBand P r c"
    and "c \<in> set (highlightRow P r) \<Longrightarrow> spanInBand P r c"
  using assms by (auto simp: clearRow_def highlightRow_def spanInBand_def inBand_def rowTop_def)


lemma rowOfMarker_is_timing_row:
  assumes "wf_rows (markerTimingAndBuckets P)" and "rowOfMarker P m = Some r"
  shows "\<exists>mt. rowAt (markerTimingAndBuckets P) r = Some (Timing mt)"
proof -
  from assms(2) obtain k where "computeMarkerIndexToTimingRow (markerTimingAndBuckets P) k = Some r"
    by (auto simp: rowOfMarker_def split: option.splits)
  then have "fold (indexRow (markerTimingAndBuckets P)) [0..<length (markerTimingAndBuckets P)]
               Map.empty k = Some r"
    by (simp add: computeMarkerIndexToTimingRow_def)
  from index_prefix_some[OF assms(1) le_refl this]
  show ?thesis by (auto simp: rowAt_def)
qed

text \<open>The calls of the hover-only branch, when the hovered rows are timing rows.\<close>

lemma hover_only_calls:
  assumes hov: "isHoveredOnlyDifferent hoverInfo"
    and hm: "hoveredMarker = (case hoveredItem hoverInfo of None \<Rightarrow> None | Some h \<Rightarrow> markerIndex h)"
    and hl: "hoveredLabel = (case hoveredItem hoverInfo of None \<Rightarrow> None | Some h \<Rightarrow> rowIndexOfLabel h)"
    and nr: "newRow = hoveredRow P (hoveredItem hoverInfo)"
    and orr: "oldRow = hoveredRow P (prevHoveredItem hoverInfo)"
    and rc: "rightClickedRow = rowOfMarker P (rightClickedMarkerIndex P)"
    and timing: "\<forall>r. newRow = Some r \<or> oldRow = Some r \<longrightarrow>
                   (\<exists>mt. rowAt (markerTimingAndBuckets P) r = Some (Timing mt))"
  shows "drawCanvas P dpr tm tml 1 hoverInfo =
    (SetLineWidth 1 #
     (case newRow of
        None \<Rightarrow> []
      | Some n \<Rightarrow>
          [SetFillStyle (Css ''#fff''),
           FillRect 0 (rowTop P n) (containerWidth (vp P)) (rowHeight P - 1),
           SetFillStyle (Css ''rgba(40, 122, 169, 0.2)''),
           FillRect 0 (rowTop P n) (containerWidth (vp P)) (rowHeight P - 1)] @
          drawMarkers P dpr tm hoveredMarker n (n + 1) @
          (if hoveredLabel = None then fst (drawSeparatorsAndLabels P tm tml n (n + 1)) else [])) @
     (case oldRow of
        None \<Rightarrow> []
      | Some r \<Rightarrow>
          if oldRow = newRow then []
          else (if oldRow = rightClickedRow then []
                else [SetFillStyle (Css ''#fff''),
                      FillRect 0 (rowTop P r) (containerWidth (vp P)) (rowHeight P - 1)]) @
               drawMarkers P dpr tm hoveredMarker r (r + 1) @
               fst (drawSeparatorsAndLabels P tm tml r (r + 1))), None)"
proof -
  have sep: "snd (drawSeparatorsAndLabels P tm tml r (r + 1)) = None"
    if "newRow = Some r \<or> oldRow = Some r" for r
  proof -
    from timing that obtain mt where "rowAt (markerTimingAndBuckets P) r = Some (Timing mt)"
      by blast
    then show ?thesis by (simp add: drawSeparatorsAndLabels_timing_row)
  qed
  have steps: "drawCanvasSteps P hoverInfo =
     (case newRow of
           None \<Rightarrow> []
         | Some n \<Rightarrow>
             [ClearRow n, HighlightRow n, DrawMarkers hoveredMarker n (n + 1)] @
             (if hoveredLabel = None then [DrawSeparatorsAndLabels n (n + 1)] else [])) @
        (case oldRow of
           None \<Rightarrow> []
         | Some r \<Rightarrow>
             if oldRow = newRow then []
             else (if oldRow = rightClickedRow then [] else [ClearRow r]) @
                  [DrawMarkers hoveredMarker r (r + 1), DrawSeparatorsAndLabels r (r + 1)])"
    unfolding drawCanvasSteps_hover_only[OF hov] hm hl nr orr rc by (simp add: Let_def)
  have ok: "\<forall>s \<in> set (drawCanvasSteps P hoverInfo). snd (runStep P dpr tm tml s) = None"
    unfolding steps using sep
    by (auto simp: runStep_def split: option.splits if_splits)
  show ?thesis
    unfolding drawCanvas_def runSteps_no_throw[OF ok]
    by (auto simp: steps runStep_def clearRow_def highlightRow_def rowTop_def split: option.splits)
qed

section \<open>The example charts, evaluated\<close>

lemma ex_eval:
  "hitRowIndex exProps 0 = 0" "rowAt (markerTimingAndBuckets exProps) 0 = Some (Timing exTiming)"
  "xInTime exProps x = x" "dotRadiusInTime exProps = 6" "dotRadius exProps = 6"
  "marginLeft exProps = 0" "wf_markerTiming exTiming" "sorted (mt_start exTiming)"
  by (simp_all add: hitRowIndex_def exProps_def rowAt_def xInTime_def xInUnitInterval_def
      viewportLength_def markerContainerWidth_def rangeLength_def dotRadiusInTime_def dotRadius_def
      MARKER_DOT_RADIUS_def wf_markerTiming_def exTiming_def)

lemma ex_geom:
  "rowHeight exProps = 24" "markerContainerWidth exProps = 100" "viewportLength exProps = 1"
  "rangeLength exProps = 100" "timelineTrackOrganizationType exProps = ''full''"
  by (simp_all add: exProps_def markerContainerWidth_def viewportLength_def rangeLength_def)

lemma ex_bisect15: "bisectionRight (mt_start exTiming) 15 = 1"
  by (simp add: exTiming_def bisectionRight_def bisectionRight_loop.simps)

lemma ex_hit15: "hitTest exProps None 15 0 = Inr (Some \<lparr>markerIndex = Some 8, rowIndexOfLabel = None\<rparr>)"
  by (simp add: hitTest_def ex_eval hitMarker_def ex_bisect15 closest_def isMarkerTimingInDotRadius_def hoveredItems_def)
     (simp add: exTiming_def exProps_def)


lemma ex_geometry1:
  "markerGeometry exProps 1 0 exTiming (Suc 0) =
     \<lparr>di_x = 20, di_y = 0, di_w = 10, di_h = 23, di_isInstantMarker = False, di_text = ''b''\<rparr>"
  by (simp add: exProps_def exTiming_def markerGeometry_def Let_def Math_round_def
      rangeLength_def viewportLength_def markerContainerWidth_def)




lemma exActive_eval:
  "hitRowIndex exActiveTabProps 0 = 0"
  "rowAt (markerTimingAndBuckets exActiveTabProps) 0 = Some (Timing exTiming)"
  "dotRadius exActiveTabProps = 6" "marginLeft exActiveTabProps = 0"
  "timelineTrackOrganizationType exActiveTabProps = ''active-tab''"
  by (simp_all add: hitRowIndex_def exActiveTabProps_def exProps_def rowAt_def dotRadius_def MARKER_DOT_RADIUS_def)

lemma exDeg_eval:
  "hitRowIndex exDegenerateProps 0 = 0"
  "rowAt (markerTimingAndBuckets exDegenerateProps) 0 = Some (Timing exTiming)"
  "xInTime exDegenerateProps x = 5" "dotRadiusInTime exDegenerateProps = 0" "dotRadius exDegenerateProps = 6"
  "marginLeft exDegenerateProps = 0" "rangeEnd exDegenerateProps = rangeStart exDegenerateProps"
  "markerContainerWidth exDegenerateProps = 100" "rowHeight exDegenerateProps = 24"
  "timelineTrackOrganizationType exDegenerateProps = ''full''" "rangeStart exDegenerateProps = 5"
  by (simp_all add: hitRowIndex_def exDegenerateProps_def exProps_def rowAt_def xInTime_def xInUnitInterval_def
      viewportLength_def markerContainerWidth_def rangeLength_def dotRadiusInTime_def dotRadius_def
      MARKER_DOT_RADIUS_def)

lemma exDeg_hit:
  "hitTest exDegenerateProps None 50 0 = Inr (Some \<lparr>markerIndex = Some 7, rowIndexOfLabel = None\<rparr>)"
proof -
  have b: "bisectionRight (mt_start exTiming) 5 = 1"
    by (simp add: exTiming_def bisectionRight_def bisectionRight_loop.simps)
  show ?thesis
    by (simp add: hitTest_def exDeg_eval hitMarker_def b closest_def isMarkerTimingInDotRadius_def hoveredItems_def)
       (simp add: exTiming_def)
qed

lemma exDots_eval:
  "rowAt (markerTimingAndBuckets exDotsProps) 0 = Some (Timing exDotsTiming)"
  "mt_length exDotsTiming = 3"
  "inBounds exDotsProps exDotsTiming 0" "inBounds exDotsProps exDotsTiming (Suc 0)"
  "inBounds exDotsProps exDotsTiming (Suc (Suc 0))"
  "\<not> isHighlightedMarker exDotsProps None k"
  "markerGeometry exDotsProps 1 0 exDotsTiming 0 =
     \<lparr>di_x = 10, di_y = 0, di_w = 0, di_h = 23, di_isInstantMarker = True, di_text = ''x''\<rparr>"
  "markerGeometry exDotsProps 1 0 exDotsTiming (Suc 0) =
     \<lparr>di_x = 10, di_y = 0, di_w = 0, di_h = 23, di_isInstantMarker = True, di_text = ''y''\<rparr>"
  "markerGeometry exDotsProps 1 0 exDotsTiming (Suc (Suc 0)) =
     \<lparr>di_x = 30, di_y = 0, di_w = 0, di_h = 23, di_isInstantMarker = True, di_text = ''z''\<rparr>"
  "marginLeft exDotsProps = 0" "markerContainerWidth exDotsProps = 100"
  "containerHeight (vp exDotsProps) = 24" "rowHeight exDotsProps = 24"
  by (simp_all add: exDotsProps_def exProps_def rowAt_def exDotsTiming_def inBounds_def
      timeAtViewportLeft_def timeAtViewportRightPlusMargin_def rangeLength_def viewportLength_def
      markerContainerWidth_def isHighlightedMarker_def markerGeometry_def Let_def Math_round_def)


lemma exDots_points:
  "pathPoints (drawOneMarker exDotsProps exTextMeasurement
      (markerGeometry exDotsProps 1 0 exDotsTiming 0) False) =
     [(17 / 4, 23 / 2), (10, 3 / 2), (63 / 4, 23 / 2), (10, 43 / 2)]"
  by (simp add: exDots_eval drawOneMarker_def drawOneInstantMarker_def)

lemma exDots_rowHeight: "rowHeight exDotsProps = 24"
  by (simp add: exDotsProps_def exProps_def)

lemma exTwoRow_index:
  "computeMarkerIndexToTimingRow [Bucket ''Other'', Timing exRowA, Timing exRowB] =
     [5 \<mapsto> 1, 7 \<mapsto> 2]"
  by (simp add: computeMarkerIndexToTimingRow_def numeral_3_eq_3 indexRow_def indexTimingRow_def
      exRowA_def exRowB_def)

lemma exTwoRow_wf: "wf_rows [Bucket ''Other'', Timing exRowA, Timing exRowB]"
  by (simp add: wf_rows_def wf_markerTiming_def exRowA_def exRowB_def)

lemma exTwoRow_rows:
  "markerTimingAndBuckets exTwoRowProps = [Bucket ''Other'', Timing exRowA, Timing exRowB]"
  "rightClickedMarkerIndex exTwoRowProps = None"
  "timelineTrackOrganizationType exTwoRowProps = ''full''"
  by (simp_all add: exTwoRowProps_def)

text \<open>An identifier contained in rows 0 and 1 is mapped to row 1.\<close>

lemma exRepeated_index: "computeMarkerIndexToTimingRow exRepeatedRows 5 = Some 1"
  by (simp add: computeMarkerIndexToTimingRow_def exRepeatedRows_def numeral_2_eq_2 indexRow_def
      indexTimingRow_def exRowA_def)

lemma exTwoRow_hover:
  "isHoveredOnlyDifferent exHoverInfo"
  "hoveredRow exTwoRowProps (hoveredItem exHoverInfo) = Some 2"
  "hoveredRow exTwoRowProps (prevHoveredItem exHoverInfo) = Some 1"
  "rowOfMarker exTwoRowProps (rightClickedMarkerIndex exTwoRowProps) = None"
  "(case hoveredItem exHoverInfo of None \<Rightarrow> None | Some h \<Rightarrow> markerIndex h) = Some 7"
  "(case hoveredItem exHoverInfo of None \<Rightarrow> None | Some h \<Rightarrow> rowIndexOfLabel h) = None"
  by (simp_all add: hoveredRow_def rowOfMarker_def exTwoRow_rows exTwoRow_index exHoverInfo_def)

lemma exTwoRow_timing:
  "rowAt (markerTimingAndBuckets exTwoRowProps) 2 = Some (Timing exRowB)"
  "rowAt (markerTimingAndBuckets exTwoRowProps) 1 = Some (Timing exRowA)"
  "\<forall>r. Some (2::int) = Some r \<or> Some (1::int) = Some r \<longrightarrow>
     (\<exists>mt. rowAt (markerTimingAndBuckets exTwoRowProps) r = Some (Timing mt))"
  by (auto simp: exTwoRow_rows rowAt_def)

lemma exTwoRow_geometry:
  "rowHeight exTwoRowProps = 24" "marginLeft exTwoRowProps = 150"
  "containerWidth (vp exTwoRowProps) = 250" "containerHeight (vp exTwoRowProps) = 72"
  "rowTop exTwoRowProps 0 = 0" "rowTop exTwoRowProps 1 = 24" "rowTop exTwoRowProps 2 = 48"
  by (simp_all add: exTwoRowProps_def rowTop_def)

lemma exTwoRow_calls:
  "drawCanvas exTwoRowProps 1 exTextMeasurement 150 1 exHoverInfo =
     (SetLineWidth 1 #
      ([SetFillStyle (Css ''#fff''), FillRect 0 48 250 23,
        SetFillStyle (Css ''rgba(40, 122, 169, 0.2)''), FillRect 0 48 250 23] @
       drawMarkers exTwoRowProps 1 exTextMeasurement (Some 7) 2 3 @
       fst (drawSeparatorsAndLabels exTwoRowProps exTextMeasurement 150 2 3)) @
      ([SetFillStyle (Css ''#fff''), FillRect 0 24 250 23] @
       drawMarkers exTwoRowProps 1 exTextMeasurement (Some 7) 1 2 @
       fst (drawSeparatorsAndLabels exTwoRowProps exTextMeasurement 150 1 2)), None)"
  using hover_only_calls[OF exTwoRow_hover(1) refl refl refl refl refl, of exTwoRowProps
      1 exTextMeasurement 150]
  by (simp add: exTwoRow_hover exTwoRow_timing exTwoRow_geometry)

lemma exTwoRow_column:
  "FillRect 149 0 1 72 \<in> set (fst (drawSeparatorsAndLabels exTwoRowProps exTextMeasurement 150 2 3))"
  using drawSeparatorsAndLabels_timing_row[OF exTwoRow_timing(1), of exTextMeasurement 150]
  by (simp add: exTwoRow_rows exTwoRow_geometry)

section \<open>C1: the two candidates of hit testing\<close>

text \<open>
  C1. In a non-empty timing row with ascending starts, let \<open>n\<close> be the insertion point
  of the pointer's time, strictly between 0 and the length of the row. Then \<open>n\<close> is the
  first index whose start is strictly greater than that time; the candidate \<open>c\<close> is the
  previous marker exactly when its signed gap \<open>xInTime - end[n - 1]\<close> is strictly smaller
  than the gap \<open>start[n] - xInTime\<close> of the next one, so the later marker on a tie; a
  marker is returned only if it is the candidate and the candidate is within the dot
  radius, and unless the pointer is left of the clickable region or the call throws, the
  candidate is returned when it is within the dot radius and no marker otherwise.
\<close>

theorem C1_hitTest_two_candidates:
  assumes row: "rowAt (markerTimingAndBuckets P) (hitRowIndex P y) = Some (Timing mt)"
    and wf: "wf_markerTiming mt"
    and srt: "sorted (mt_start mt)"
    and geom: "rowHeight P \<noteq> 0" "markerContainerWidth P \<noteq> 0"
    and n: "n = bisectionRight (mt_start mt) (xInTime P x)" "0 < n" "n < mt_length mt"
    and c: "c = (if xInTime P x - mt_end mt ! (n - 1) < mt_start mt ! n - xInTime P x
                 then n - 1 else n)"
  shows "(\<forall>i<n. mt_start mt ! i \<le> xInTime P x) \<and> xInTime P x < mt_start mt ! n \<and>
         (resultMarker (hitTest P tm x y) = None \<or>
          resultMarker (hitTest P tm x y) = Some (mt_index mt ! c) \<and>
          mt_start mt ! c < xInTime P x + dotRadiusInTime P \<and>
          mt_end mt ! c > xInTime P x - dotRadiusInTime P) \<and>
         (if x < marginLeft P - dotRadius P \<or> isl (hitTest P tm x y)
          then resultMarker (hitTest P tm x y) = None
          else resultMarker (hitTest P tm x y) =
                 (if mt_start mt ! c < xInTime P x + dotRadiusInTime P \<and>
                     mt_end mt ! c > xInTime P x - dotRadiusInTime P
                  then Some (mt_index mt ! c) else None))"
proof -
  have len: "length (mt_start mt) = mt_length mt" using wf by (simp add: wf_markerTiming_def)
  have ne: "mt_length mt \<noteq> 0" using n by simp
  have cl: "closest P mt x n = c" by (simp add: closest_def c Let_def)
  have hm: "hitMarker P mt x =
      (if isMarkerTimingInDotRadius P mt x c then Some (mt_index mt ! c) else None)"
    using n cl by (simp add: hitMarker_def Let_def)
  have ins1: "\<forall>i<n. mt_start mt ! i \<le> xInTime P x"
    using bisectionRight_sorted(1)[OF srt, of "xInTime P x"] n(1) by simp
  have ins2: "xInTime P x < mt_start mt ! n"
    using bisectionRight_sorted(2)[OF srt, of "xInTime P x"] n len by simp
  have a: "resultMarker (hitTest P tm x y) = None \<or>
           resultMarker (hitTest P tm x y) = hitMarker P mt x"
    by (rule hitTest_marker_part(1)[OF row ne])
  have b: "\<not> x < marginLeft P - dotRadius P \<Longrightarrow> \<not> isl (hitTest P tm x y) \<Longrightarrow>
           resultMarker (hitTest P tm x y) = hitMarker P mt x"
    by (rule hitTest_marker_part(2)[OF row ne])
  have g: "x < marginLeft P - dotRadius P \<Longrightarrow> resultMarker (hitTest P tm x y) = None"
    by (simp add: hitTest_def resultMarker_def)
  have e: "isl (hitTest P tm x y) \<Longrightarrow> resultMarker (hitTest P tm x y) = None"
    by (cases "hitTest P tm x y") (simp_all add: resultMarker_def)
  show ?thesis
    using ins1 ins2 a b g e unfolding hm isMarkerTimingInDotRadius_def
    by (auto split: if_splits)
qed

text \<open>The tie of the specification: at \<open>t = 15\<close> both gaps are 5 and the later interval
  is hit.\<close>

theorem C1_witness:
  "rowAt (markerTimingAndBuckets exProps) (hitRowIndex exProps 0) = Some (Timing exTiming) \<and>
   wf_markerTiming exTiming \<and> sorted (mt_start exTiming) \<and>
   rowHeight exProps \<noteq> 0 \<and> markerContainerWidth exProps \<noteq> 0 \<and>
   bisectionRight (mt_start exTiming) (xInTime exProps 15) = 1 \<and> 1 < mt_length exTiming \<and>
   xInTime exProps 15 - mt_end exTiming ! 0 = mt_start exTiming ! 1 - xInTime exProps 15 \<and>
   mt_start exTiming ! 1 < xInTime exProps 15 + dotRadiusInTime exProps \<and>
   mt_end exTiming ! 1 > xInTime exProps 15 - dotRadiusInTime exProps \<and>
   resultMarker (hitTest exProps None 15 0) = Some (mt_index exTiming ! 1)"
proof -
  have row: "rowAt (markerTimingAndBuckets exProps) (hitRowIndex exProps 0) = Some (Timing exTiming)"
    by (simp add: ex_eval)
  have geom: "rowHeight exProps \<noteq> 0" "markerContainerWidth exProps \<noteq> 0"
    by (simp_all add: exProps_def markerContainerWidth_def)
  have n: "1 = bisectionRight (mt_start exTiming) (xInTime exProps 15)" "0 < (1::nat)"
    "1 < mt_length exTiming"
    by (simp_all add: ex_eval ex_bisect15) (simp add: exTiming_def)
  have tie: "xInTime exProps 15 - mt_end exTiming ! 0 = mt_start exTiming ! 1 - xInTime exProps 15"
    by (simp add: ex_eval exTiming_def)
  have c: "1 = (if xInTime exProps 15 - mt_end exTiming ! (1 - 1)
                   < mt_start exTiming ! 1 - xInTime exProps 15 then 1 - 1 else (1::nat))"
    using tie by simp
  have inr: "mt_start exTiming ! 1 < xInTime exProps 15 + dotRadiusInTime exProps"
    "mt_end exTiming ! 1 > xInTime exProps 15 - dotRadiusInTime exProps"
    by (simp_all add: ex_eval exTiming_def)
  have ok: "\<not> (15 < marginLeft exProps - dotRadius exProps \<or> isl (hitTest exProps None 15 0))"
    by (simp add: ex_eval ex_hit15)
  from C1_hitTest_two_candidates[OF row ex_eval(7) ex_eval(8) geom n c, of None]
  have "resultMarker (hitTest exProps None 15 0) = Some (mt_index exTiming ! 1)"
    using ok inr by simp
  then show ?thesis using row geom n tie inr by (simp add: ex_eval)
qed

section \<open>C2: degenerate geometry\<close>

text \<open>
  C2 (amended). The code has no check for degenerate geometry. With a range of length
  zero, or a viewport of no positive length, and a plotting width and a row height that
  are not zero, hitTest in the default view returns a result, not an error: for a range
  of length zero the pointer's time is the range start and the dot radius in time is 0,
  for a viewport of length zero the time is the time at the viewport's left edge and the
  dot radius in time is 0. A full repaint by drawCanvas is not aborted before drawing
  either: it starts by clearing the surface.
\<close>

theorem C2_degenerate_hitTest_returns:
  assumes "rangeEnd P = rangeStart P \<or> viewportRight (vp P) - viewportLeft (vp P) \<le> 0"
    and "markerContainerWidth P \<noteq> 0" and "rowHeight P \<noteq> 0"
    and "timelineTrackOrganizationType P \<noteq> ''active-tab''"
    and "\<not> isHoveredOnlyDifferent hoverInfo"
  shows "(\<exists>r. hitTest P tm x y = Inr r) \<and>
         (rangeEnd P = rangeStart P \<longrightarrow>
            xInTime P x = rangeStart P \<and> dotRadiusInTime P = 0) \<and>
         (viewportRight (vp P) - viewportLeft (vp P) = 0 \<longrightarrow>
            xInTime P x = rangeStart P + viewportLeft (vp P) * rangeLength P \<and>
            dotRadiusInTime P = 0) \<and>
         (\<exists>cs e. drawCanvas P dpr tm' tml 1 hoverInfo =
            (SetLineWidth 1 # SetFillStyle (Css ''#ffffff'') #
             FillRect 0 0 (containerWidth (vp P)) (containerHeight (vp P)) # cs, e))"
proof -
  have "\<exists>r. hitTest P tm x y = Inr r"
    using assms(4) by (auto simp: hitTest_def split: option.splits row.splits)
  moreover have "rangeEnd P = rangeStart P \<longrightarrow>
            xInTime P x = rangeStart P \<and> dotRadiusInTime P = 0"
    by (simp add: xInTime_def dotRadiusInTime_def rangeLength_def)
  moreover have "viewportRight (vp P) - viewportLeft (vp P) = 0 \<longrightarrow>
            xInTime P x = rangeStart P + viewportLeft (vp P) * rangeLength P \<and>
            dotRadiusInTime P = 0"
    by (simp add: xInTime_def dotRadiusInTime_def viewportLength_def xInUnitInterval_def)
  ultimately show ?thesis using full_repaint_clears_first[OF assms(5)] by blast
qed

text \<open>C2 as stated fails: with a range of length zero hitTest returns a marker.\<close>

theorem C2_counterexample:
  "rangeEnd exDegenerateProps = rangeStart exDegenerateProps \<and>
   hitTest exDegenerateProps None 50 0 =
     Inr (Some \<lparr>markerIndex = Some 7, rowIndexOfLabel = None\<rparr>)"
  by (simp add: exDeg_eval exDeg_hit)

text \<open>The example chart with a range of length zero.\<close>

theorem C2_witness:
  "rangeEnd exDegenerateProps = rangeStart exDegenerateProps \<and>
   markerContainerWidth exDegenerateProps \<noteq> 0 \<and> rowHeight exDegenerateProps \<noteq> 0 \<and>
   timelineTrackOrganizationType exDegenerateProps \<noteq> ''active-tab'' \<and>
   xInTime exDegenerateProps 50 = rangeStart exDegenerateProps \<and>
   dotRadiusInTime exDegenerateProps = 0 \<and>
   (\<exists>r. hitTest exDegenerateProps None 50 0 = Inr r) \<and>
   (\<exists>cs e. drawCanvas exDegenerateProps 1 exTextMeasurement 150 1
      \<lparr>hoveredItem = None, prevHoveredItem = None, isHoveredOnlyDifferent = False\<rparr> =
      (SetLineWidth 1 # SetFillStyle (Css ''#ffffff'') # FillRect 0 0 100 24 # cs, e))"
proof -
  have deg: "rangeEnd exDegenerateProps = rangeStart exDegenerateProps \<or>
             viewportRight (vp exDegenerateProps) - viewportLeft (vp exDegenerateProps) \<le> 0"
    by (simp add: exDeg_eval)
  have geom: "markerContainerWidth exDegenerateProps \<noteq> 0" "rowHeight exDegenerateProps \<noteq> 0"
    "timelineTrackOrganizationType exDegenerateProps \<noteq> ''active-tab''"
    by (simp_all add: exDeg_eval)
  have full: "\<not> isHoveredOnlyDifferent
      \<lparr>hoveredItem = None, prevHoveredItem = None, isHoveredOnlyDifferent = False\<rparr>"
    by simp
  have size: "containerWidth (vp exDegenerateProps) = 100"
    "containerHeight (vp exDegenerateProps) = 24"
    by (simp_all add: exDegenerateProps_def exProps_def)
  from C2_degenerate_hitTest_returns[OF deg geom full, of None 50 0 1 exTextMeasurement 150]
  show ?thesis using geom by (simp add: exDeg_eval size)
qed

section \<open>C3: the coordinate mapper\<close>

text \<open>
  C3. The \<open>x\<close> of a drawn marker is the specification's \<open>unitIntervalToPixel\<close> of the
  unit-interval start time, rounded to the device pixel grid, and its width is the
  difference of the pixel positions of its end and its start, rounded the same way.
  Hit testing maps a pixel to the unit interval and to time without rounding, and where
  no length is zero that mapping is the inverse of the one used for drawing.
\<close>

theorem C3_coordinate_mapping:
  assumes rl: "rangeLength P \<noteq> 0" and vl: "viewportLength P \<noteq> 0"
    and cw: "markerContainerWidth P \<noteq> 0" and "dpr \<noteq> 0"
    and toPixel: "toPixel = (\<lambda>u. spec_unitIntervalToPixel u (viewportLeft (vp P))
                     (viewportRight (vp P)) (containerWidth (vp P)) (marginLeft P) (marginRight P))"
    and toUnit: "toUnit = (\<lambda>t. spec_timeToUnitInterval t (rangeStart P) (rangeEnd P))"
  shows "di_x (markerGeometry P dpr rowIndex mt i) =
           spec_devicePixelAligned (toPixel (toUnit (mt_start mt ! i))) dpr \<and>
         di_w (markerGeometry P dpr rowIndex mt i) =
           spec_devicePixelAligned
             (toPixel (toUnit (mt_end mt ! i)) - toPixel (toUnit (mt_start mt ! i))) dpr \<and>
         xInUnitInterval P (toPixel u) = u \<and>
         toPixel (xInUnitInterval P x) = x \<and>
         xInTime P x = spec_unitIntervalToTime (xInUnitInterval P x) (rangeStart P) (rangeEnd P) \<and>
         xInTime P (toPixel (toUnit t)) = t \<and>
         toPixel (toUnit (xInTime P x)) = x"
proof -
  have x: "di_x (markerGeometry P dpr rowIndex mt i) =
           spec_devicePixelAligned (toPixel (toUnit (mt_start mt ! i))) dpr"
    by (simp add: markerGeometry_def Let_def spec_devicePixelAligned_def toPixel toUnit
        spec_unitIntervalToPixel_def spec_timeToUnitInterval_def Math_round_def round_def
        markerContainerWidth_def viewportLength_def rangeLength_def add.commute)
  have eq: "((mt_end mt ! i - rangeStart P) / rangeLength P -
             (mt_start mt ! i - rangeStart P) / rangeLength P) *
            markerContainerWidth P / viewportLength P =
            toPixel (toUnit (mt_end mt ! i)) - toPixel (toUnit (mt_start mt ! i))"
    unfolding toPixel toUnit spec_unitIntervalToPixel_def spec_timeToUnitInterval_def
      markerContainerWidth_def viewportLength_def rangeLength_def
    by (rule width_as_difference)
  have "di_w (markerGeometry P dpr rowIndex mt i) =
        Math_round (((mt_end mt ! i - rangeStart P) / rangeLength P -
                     (mt_start mt ! i - rangeStart P) / rangeLength P) *
                    markerContainerWidth P / viewportLength P * dpr) / dpr"
    by (simp add: markerGeometry_def Let_def)
  also have "\<dots> = spec_devicePixelAligned
       (toPixel (toUnit (mt_end mt ! i)) - toPixel (toUnit (mt_start mt ! i))) dpr"
    unfolding eq by (simp only: spec_devicePixelAligned_def Math_round_def round_def)
  finally have w: "di_w (markerGeometry P dpr rowIndex mt i) =
     spec_devicePixelAligned
       (toPixel (toUnit (mt_end mt ! i)) - toPixel (toUnit (mt_start mt ! i))) dpr" .
  have inv1: "xInUnitInterval P (toPixel u) = u" for u
    using vl cw
    by (simp add: xInUnitInterval_def toPixel spec_unitIntervalToPixel_def
        markerContainerWidth_def viewportLength_def)
  have inv2: "toPixel (xInUnitInterval P x) = x"
    using vl cw
    by (simp add: xInUnitInterval_def toPixel spec_unitIntervalToPixel_def
        markerContainerWidth_def viewportLength_def)
  have t1: "xInTime P x = spec_unitIntervalToTime (xInUnitInterval P x) (rangeStart P) (rangeEnd P)"
    for x
    by (simp add: xInTime_def spec_unitIntervalToTime_def rangeLength_def)
  have t2: "spec_unitIntervalToTime (toUnit t) (rangeStart P) (rangeEnd P) = t"
    using rl by (simp add: spec_unitIntervalToTime_def toUnit spec_timeToUnitInterval_def
        rangeLength_def)
  have t3: "toUnit (xInTime P x) = xInUnitInterval P x"
    using rl by (simp add: xInTime_def toUnit spec_timeToUnitInterval_def rangeLength_def)
  have r1: "xInTime P (toPixel (toUnit t)) = t"
    unfolding t1[of "toPixel (toUnit t)"] inv1 by (rule t2)
  have r2: "toPixel (toUnit (xInTime P x)) = x"
    unfolding t3 by (rule inv2)
  show ?thesis using x w inv1 inv2 t1 r1 r2 by blast
qed

text \<open>The second interval of the example row starts at pixel 20 and is 10 wide.\<close>

theorem C3_witness:
  "rangeLength exProps \<noteq> 0 \<and> viewportLength exProps \<noteq> 0 \<and> markerContainerWidth exProps \<noteq> 0 \<and>
   spec_timeToUnitInterval (mt_start exTiming ! 1) (rangeStart exProps) (rangeEnd exProps) = 1 / 5 \<and>
   spec_unitIntervalToPixel (1 / 5) (viewportLeft (vp exProps)) (viewportRight (vp exProps))
     (containerWidth (vp exProps)) (marginLeft exProps) (marginRight exProps) = 20 \<and>
   di_x (markerGeometry exProps 1 0 exTiming 1) = 20 \<and>
   di_w (markerGeometry exProps 1 0 exTiming 1) = 10 \<and>
   xInUnitInterval exProps 20 = 1 / 5 \<and>
   xInTime exProps 20 = mt_start exTiming ! 1"
proof -
  have u: "spec_timeToUnitInterval (mt_start exTiming ! 1) (rangeStart exProps) (rangeEnd exProps) = 1 / 5"
    by (simp add: exProps_def exTiming_def spec_timeToUnitInterval_def)
  have p: "spec_unitIntervalToPixel (1 / 5) (viewportLeft (vp exProps)) (viewportRight (vp exProps))
     (containerWidth (vp exProps)) (marginLeft exProps) (marginRight exProps) = 20"
    by (simp add: exProps_def spec_unitIntervalToPixel_def)
  have t: "mt_start exTiming ! 1 = 20" by (simp add: exTiming_def)
  have one: "(1::real) \<noteq> 0" by simp
  from C3_coordinate_mapping[OF _ _ _ one refl refl, of exProps 0 exTiming 1 "1 / 5" 20 20]
  show ?thesis using u p t by (simp add: ex_geom ex_geometry1 ex_eval)
qed

section \<open>C4: the drop policy\<close>



section \<open>C5: the shape of an interval marker\<close>

text \<open>
  C5. An interval marker of rounded width \<open>w \<le> 2\<close> is drawn by one filled rectangle
  and nothing else: no stroke, no text. With \<open>w > 2\<close> it is drawn as a filled and
  stroked rectangle, the text is fitted exactly when the visible width less the two text
  offsets exceeds the minimum width of the text measurement, and text is drawn only
  after a fitting.
\<close>

theorem C5_interval_marker_shape:
  assumes "\<not> di_isInstantMarker m"
  shows "(di_w m \<le> 2 \<longrightarrow>
            drawOneMarker P tm m isHighlighted =
              [SetFillStyle (if isHighlighted then BLUE_80 else MARKER_BORDER_COLOR),
               FillRect (di_x m) (di_y m + 1) (max (di_w m) 1) (di_h m - 2)]) \<and>
         (di_w m > 2 \<longrightarrow>
            take 6 (drawOneMarker P tm m isHighlighted) =
              [SetFillStyle (if isHighlighted then BLUE_60 else Css ''#8ac4ff''),
               SetStrokeStyle (if isHighlighted then BLUE_80 else MARKER_BORDER_COLOR),
               BeginPath,
               Rect (di_x m + 0.5) (di_y m + 1 + 0.5) (di_w m - 1) (di_h m - 2 - 1),
               Fill, Stroke] \<and>
            ((\<exists>t v. GetFittedText t v \<in> set (drawOneMarker P tm m isHighlighted)) \<longleftrightarrow>
               (if di_x m < marginLeft P then di_w m - marginLeft P + di_x m else di_w m)
                 - 2 * TEXT_OFFSET_START > minWidth tm) \<and>
            ((\<exists>t a b. FillText t a b \<in> set (drawOneMarker P tm m isHighlighted)) \<longrightarrow>
               (\<exists>t v. GetFittedText t v \<in> set (drawOneMarker P tm m isHighlighted))))"
  using assms
  by (auto simp: drawOneMarker_def drawOneIntervalMarker_def Let_def split: option.splits)

text \<open>Widths 2, 3 and 50: a bar, a bordered rectangle too narrow for text, and one
  whose text is fitted.\<close>

theorem C5_witness:
  "drawOneMarker exProps exTextMeasurement
     \<lparr>di_x = 10, di_y = 0, di_w = 2, di_h = 23, di_isInstantMarker = False, di_text = ''abc''\<rparr>
     False = [SetFillStyle MARKER_BORDER_COLOR, FillRect 10 1 2 21] \<and>
   take 6 (drawOneMarker exProps exTextMeasurement
     \<lparr>di_x = 10, di_y = 0, di_w = 3, di_h = 23, di_isInstantMarker = False, di_text = ''abc''\<rparr>
     False) = [SetFillStyle (Css ''#8ac4ff''), SetStrokeStyle MARKER_BORDER_COLOR, BeginPath,
               Rect (21 / 2) (3 / 2) 2 20, Fill, Stroke] \<and>
   \<not> (\<exists>t v. GetFittedText t v \<in> set (drawOneMarker exProps exTextMeasurement
     \<lparr>di_x = 10, di_y = 0, di_w = 3, di_h = 23, di_isInstantMarker = False, di_text = ''abc''\<rparr>
     False)) \<and>
   (\<exists>t v. GetFittedText t v \<in> set (drawOneMarker exProps exTextMeasurement
     \<lparr>di_x = 10, di_y = 0, di_w = 50, di_h = 23, di_isInstantMarker = False, di_text = ''abc''\<rparr>
     False))"
  using C5_interval_marker_shape[of
      "\<lparr>di_x = 10, di_y = 0, di_w = 2, di_h = 23, di_isInstantMarker = False, di_text = ''abc''\<rparr>"
      exProps exTextMeasurement False]
    C5_interval_marker_shape[of
      "\<lparr>di_x = 10, di_y = 0, di_w = 3, di_h = 23, di_isInstantMarker = False, di_text = ''abc''\<rparr>"
      exProps exTextMeasurement False]
    C5_interval_marker_shape[of
      "\<lparr>di_x = 10, di_y = 0, di_w = 50, di_h = 23, di_isInstantMarker = False, di_text = ''abc''\<rparr>"
      exProps exTextMeasurement False]
  by (simp add: exTextMeasurement_def TEXT_OFFSET_START_def ex_eval)

section \<open>C6: the hover-only repaint\<close>

text \<open>
  C6 (amended). The new row is the row of the hovered marker in the row index or, in
  the active tab view when that is unknown, the row of the hovered label; the old row
  likewise. When only the hover state changed, the hovered rows are timing rows and the
  row height is at least the text offset, drawCanvas does not throw and makes these
  calls after setting the line width: for the new row, if there is one, a white fill of
  its band, the highlight fill of its band, the calls of drawMarkers for that row, and
  the calls of drawSeparatorsAndLabels for that row if no label is hovered; then for the
  old row, if there is one and it is not the new row, a white fill of its band unless it
  is the row of the right-clicked marker, the calls of drawMarkers and of
  drawSeparatorsAndLabels for that row. Every rectangle, path vertex and text baseline
  of these calls lies in the band of the new or of the old row, but for the clip
  rectangle of drawMarkers and, outside the active tab view, the one-pixel separator
  column at \<open>marginLeft - 1\<close>, which drawSeparatorsAndLabels fills over the full height
  of the surface. On a surface higher than a row (and not one pixel wide) there is no
  fill of the whole surface.
\<close>

theorem C6_hover_only_repaint:
  assumes hov: "isHoveredOnlyDifferent hoverInfo"
    and hm: "hoveredMarker = (case hoveredItem hoverInfo of None \<Rightarrow> None | Some h \<Rightarrow> markerIndex h)"
    and hl: "hoveredLabel = (case hoveredItem hoverInfo of None \<Rightarrow> None | Some h \<Rightarrow> rowIndexOfLabel h)"
    and nr: "newRow = hoveredRow P (hoveredItem hoverInfo)"
    and orr: "oldRow = hoveredRow P (prevHoveredItem hoverInfo)"
    and rc: "rightClickedRow = rowOfMarker P (rightClickedMarkerIndex P)"
    and timing: "\<forall>r. newRow = Some r \<or> oldRow = Some r \<longrightarrow>
                   (\<exists>mt. rowAt (markerTimingAndBuckets P) r = Some (Timing mt))"
    and rh: "TEXT_OFFSET_TOP \<le> rowHeight P"
    and res: "result = drawCanvas P dpr tm tml 1 hoverInfo"
  shows "newRow =
           (if timelineTrackOrganizationType P = ''active-tab'' \<and>
               rowOfMarker P hoveredMarker = None \<and> hoveredLabel \<noteq> None
            then hoveredLabel else rowOfMarker P hoveredMarker) \<and>
         result =
           (SetLineWidth 1 #
            (case newRow of
               None \<Rightarrow> []
             | Some n \<Rightarrow>
                 [SetFillStyle (Css ''#fff''),
                  FillRect 0 (rowTop P n) (containerWidth (vp P)) (rowHeight P - 1),
                  SetFillStyle (Css ''rgba(40, 122, 169, 0.2)''),
                  FillRect 0 (rowTop P n) (containerWidth (vp P)) (rowHeight P - 1)] @
                 drawMarkers P dpr tm hoveredMarker n (n + 1) @
                 (if hoveredLabel = None
                  then fst (drawSeparatorsAndLabels P tm tml n (n + 1)) else [])) @
            (case oldRow of
               None \<Rightarrow> []
             | Some r \<Rightarrow>
                 if oldRow = newRow then []
                 else (if oldRow = rightClickedRow then []
                       else [SetFillStyle (Css ''#fff''),
                             FillRect 0 (rowTop P r) (containerWidth (vp P)) (rowHeight P - 1)]) @
                      drawMarkers P dpr tm hoveredMarker r (r + 1) @
                      fst (drawSeparatorsAndLabels P tm tml r (r + 1))), None) \<and>
         (\<forall>c \<in> set (fst result).
            withinRows P newRow oldRow c \<or>
            c = Rect (marginLeft P) 0 (markerContainerWidth P) (containerHeight (vp P)) \<or>
            timelineTrackOrganizationType P \<noteq> ''active-tab'' \<and>
            c = FillRect (marginLeft P - 1) 0 1 (containerHeight (vp P))) \<and>
         (rowHeight P < containerHeight (vp P) \<and> containerWidth (vp P) \<noteq> 1 \<longrightarrow>
            FillRect 0 0 (containerWidth (vp P)) (containerHeight (vp P)) \<notin> set (fst result)) \<and>
         (\<forall>r mt. (newRow = Some r \<or> oldRow = Some r) \<and>
                 rowAt (markerTimingAndBuckets P) r = Some (Timing mt) \<longrightarrow>
            drawMarkers P dpr tm hoveredMarker r (r + 1) =
              [Save, BeginPath,
               Rect (marginLeft P) 0 (markerContainerWidth P) (containerHeight (vp P)), Clip] @
              concat (map (\<lambda>j. drawOneMarker P tm (markerGeometry P dpr r mt j) False)
                        (spec_kept P dpr hoveredMarker r mt (mt_length mt))) @
              concat (map (\<lambda>j. drawOneMarker P tm (markerGeometry P dpr r mt j) True)
                        (filter (\<lambda>j. inBounds P mt j \<and>
                                      isHighlightedMarker P hoveredMarker (mt_index mt ! j))
                           [0..<mt_length mt])) @
              [Restore] \<and>
            fst (drawSeparatorsAndLabels P tm tml r (r + 1)) =
              [SetFillStyle GREY_20] @
              (if timelineTrackOrganizationType P \<noteq> ''active-tab''
               then [FillRect (marginLeft P - 1) 0 1 (containerHeight (vp P))] else []) @
              [separatorLine P r, SetFillStyle (Css ''#000000'')] @
              (if 0 < r \<and> (\<exists>prevRow. rowAt (markerTimingAndBuckets P) (r - 1) = Some prevRow \<and>
                              Some (mt_name mt) = rowName prevRow)
               then [] else drawLabel P tm tml r (mt_name mt)))"
proof -
  have parts: "\<forall>r mt. (newRow = Some r \<or> oldRow = Some r) \<and>
                 rowAt (markerTimingAndBuckets P) r = Some (Timing mt) \<longrightarrow>
            drawMarkers P dpr tm hoveredMarker r (r + 1) =
              [Save, BeginPath,
               Rect (marginLeft P) 0 (markerContainerWidth P) (containerHeight (vp P)), Clip] @
              concat (map (\<lambda>j. drawOneMarker P tm (markerGeometry P dpr r mt j) False)
                        (spec_kept P dpr hoveredMarker r mt (mt_length mt))) @
              concat (map (\<lambda>j. drawOneMarker P tm (markerGeometry P dpr r mt j) True)
                        (filter (\<lambda>j. inBounds P mt j \<and>
                                      isHighlightedMarker P hoveredMarker (mt_index mt ! j))
                           [0..<mt_length mt])) @
              [Restore] \<and>
            fst (drawSeparatorsAndLabels P tm tml r (r + 1)) =
              [SetFillStyle GREY_20] @
              (if timelineTrackOrganizationType P \<noteq> ''active-tab''
               then [FillRect (marginLeft P - 1) 0 1 (containerHeight (vp P))] else []) @
              [separatorLine P r, SetFillStyle (Css ''#000000'')] @
              (if 0 < r \<and> (\<exists>prevRow. rowAt (markerTimingAndBuckets P) (r - 1) = Some prevRow \<and>
                              Some (mt_name mt) = rowName prevRow)
               then [] else drawLabel P tm tml r (mt_name mt))"
    by (simp add: drawMarkers_one_row drawSeparatorsAndLabels_timing_row)
  have resolved: "newRow =
           (if timelineTrackOrganizationType P = ''active-tab'' \<and>
               rowOfMarker P hoveredMarker = None \<and> hoveredLabel \<noteq> None
            then hoveredLabel else rowOfMarker P hoveredMarker)"
    unfolding hm hl nr by (simp add: hoveredRow_def Let_def)
  note eq = hover_only_calls[OF hov hm hl nr orr rc timing, of dpr tm tml, folded res]
  have one: "1 \<le> rowHeight P" using rh by (simp add: TEXT_OFFSET_TOP_def)
  have band: "withinRows P newRow oldRow c" if "newRow = Some r \<or> oldRow = Some r"
    and "spanInBand P r c" for r c
    using that by (auto simp: withinRows_def)
  have cl: "withinRows P newRow oldRow c"
    if "newRow = Some r \<or> oldRow = Some r"
      and "c = SetFillStyle st \<or> c = FillRect 0 (rowTop P r) (containerWidth (vp P)) (rowHeight P - 1)"
    for r c st
    using that one by (auto simp: withinRows_def spanInBand_def inBand_def)
  have dm: "withinRows P newRow oldRow c \<or>
            c = Rect (marginLeft P) 0 (markerContainerWidth P) (containerHeight (vp P))"
    if "newRow = Some r \<or> oldRow = Some r" and "c \<in> set (drawMarkers P dpr tm hoveredMarker r (r + 1))"
    for r c
  proof -
    from timing that(1) obtain mt where "rowAt (markerTimingAndBuckets P) r = Some (Timing mt)"
      by blast
    from drawMarkers_in_band[OF this rh that(2)] band[OF that(1)] show ?thesis by blast
  qed
  have ds: "withinRows P newRow oldRow c \<or>
            timelineTrackOrganizationType P \<noteq> ''active-tab'' \<and>
            c = FillRect (marginLeft P - 1) 0 1 (containerHeight (vp P))"
    if "newRow = Some r \<or> oldRow = Some r"
      and "c \<in> set (fst (drawSeparatorsAndLabels P tm tml r (r + 1)))"
    for r c
  proof -
    from timing that(1) obtain mt where "rowAt (markerTimingAndBuckets P) r = Some (Timing mt)"
      by blast
    from drawSeparatorsAndLabels_in_band[OF this rh that(2)] band[OF that(1)] show ?thesis by blast
  qed
  have scoped: "withinRows P newRow oldRow c \<or>
            c = Rect (marginLeft P) 0 (markerContainerWidth P) (containerHeight (vp P)) \<or>
            timelineTrackOrganizationType P \<noteq> ''active-tab'' \<and>
            c = FillRect (marginLeft P - 1) 0 1 (containerHeight (vp P))"
    if c: "c \<in> set (fst result)" for c
  proof -
    have lw: "withinRows P newRow oldRow (SetLineWidth 1)" by (simp add: withinRows_def)
    from c consider "c = SetLineWidth 1"
      | n where "newRow = Some n"
          "c = SetFillStyle (Css ''#fff'') \<or> c = SetFillStyle (Css ''rgba(40, 122, 169, 0.2)'') \<or>
           c = FillRect 0 (rowTop P n) (containerWidth (vp P)) (rowHeight P - 1)"
      | n where "newRow = Some n" "c \<in> set (drawMarkers P dpr tm hoveredMarker n (n + 1))"
      | n where "newRow = Some n" "c \<in> set (fst (drawSeparatorsAndLabels P tm tml n (n + 1)))"
      | r where "oldRow = Some r"
          "c = SetFillStyle (Css ''#fff'') \<or>
           c = FillRect 0 (rowTop P r) (containerWidth (vp P)) (rowHeight P - 1)"
      | r where "oldRow = Some r" "c \<in> set (drawMarkers P dpr tm hoveredMarker r (r + 1))"
      | r where "oldRow = Some r" "c \<in> set (fst (drawSeparatorsAndLabels P tm tml r (r + 1)))"
      unfolding eq by (auto split: option.splits if_splits)
    then show ?thesis
    proof cases
      case 1
      then show ?thesis using lw by simp
    next
      case (2 n)
      then show ?thesis using cl[of n c] by blast
    next
      case (3 n)
      then show ?thesis using dm[of n c] by blast
    next
      case (4 n)
      then show ?thesis using ds[of n c] by blast
    next
      case (5 r)
      then show ?thesis using cl[of r c] by blast
    next
      case (6 r)
      then show ?thesis using dm[of r c] by blast
    next
      case (7 r)
      then show ?thesis using ds[of r c] by blast
    qed
  qed
  have nofull: "FillRect 0 0 (containerWidth (vp P)) (containerHeight (vp P)) \<notin> set (fst result)"
    if g: "rowHeight P < containerHeight (vp P)" "containerWidth (vp P) \<noteq> 1"
  proof
    assume "FillRect 0 0 (containerWidth (vp P)) (containerHeight (vp P)) \<in> set (fst result)"
    from scoped[OF this] g show False
      by (auto simp: withinRows_def spanInBand_def inBand_def split: option.splits)
  qed
  show ?thesis using resolved eq scoped nofull parts by blast
qed

text \<open>C6 as stated fails: hovering from row 1 to row 2 in the default view fills the
  separator column over the three rows of the surface, row 0 included.\<close>

theorem C6_counterexample:
  "isHoveredOnlyDifferent exHoverInfo \<and>
   hoveredRow exTwoRowProps (hoveredItem exHoverInfo) = Some 2 \<and>
   hoveredRow exTwoRowProps (prevHoveredItem exHoverInfo) = Some 1 \<and>
   FillRect 149 0 1 72 \<in>
     set (fst (drawCanvas exTwoRowProps 1 exTextMeasurement 150 1 exHoverInfo)) \<and>
   rowTop exTwoRowProps 0 = 0 \<and> rowHeight exTwoRowProps = 24 \<and>
   \<not> spanInBand exTwoRowProps 2 (FillRect 149 0 1 72) \<and>
   \<not> spanInBand exTwoRowProps 1 (FillRect 149 0 1 72)"
  by (simp add: exTwoRow_hover exTwoRow_calls exTwoRow_column exTwoRow_geometry
      spanInBand_def inBand_def)

text \<open>Hovering from marker 5 in row 1 to marker 7 in row 2: the repaint starts with
  the white fill and the highlight of the band of row 2.\<close>

theorem C6_witness:
  "isHoveredOnlyDifferent exHoverInfo \<and>
   hoveredRow exTwoRowProps (hoveredItem exHoverInfo) = Some 2 \<and>
   hoveredRow exTwoRowProps (prevHoveredItem exHoverInfo) = Some 1 \<and>
   rowAt (markerTimingAndBuckets exTwoRowProps) 2 = Some (Timing exRowB) \<and>
   rowAt (markerTimingAndBuckets exTwoRowProps) 1 = Some (Timing exRowA) \<and>
   TEXT_OFFSET_TOP \<le> rowHeight exTwoRowProps \<and>
   snd (drawCanvas exTwoRowProps 1 exTextMeasurement 150 1 exHoverInfo) = None \<and>
   take 5 (fst (drawCanvas exTwoRowProps 1 exTextMeasurement 150 1 exHoverInfo)) =
     [SetLineWidth 1, SetFillStyle (Css ''#fff''), FillRect 0 48 250 23,
      SetFillStyle (Css ''rgba(40, 122, 169, 0.2)''), FillRect 0 48 250 23] \<and>
   FillRect 0 0 250 72 \<notin>
     set (fst (drawCanvas exTwoRowProps 1 exTextMeasurement 150 1 exHoverInfo))"
proof -
  have rh: "TEXT_OFFSET_TOP \<le> rowHeight exTwoRowProps"
    by (simp add: exTwoRow_geometry TEXT_OFFSET_TOP_def)
  have timing: "\<forall>r. hoveredRow exTwoRowProps (hoveredItem exHoverInfo) = Some r \<or>
                    hoveredRow exTwoRowProps (prevHoveredItem exHoverInfo) = Some r \<longrightarrow>
                  (\<exists>mt. rowAt (markerTimingAndBuckets exTwoRowProps) r = Some (Timing mt))"
    using exTwoRow_timing(3) by (simp add: exTwoRow_hover)
  from C6_hover_only_repaint[OF exTwoRow_hover(1) refl refl refl refl refl timing rh refl,
      of 1 exTextMeasurement 150]
  have "rowHeight exTwoRowProps < containerHeight (vp exTwoRowProps) \<and>
        containerWidth (vp exTwoRowProps) \<noteq> 1 \<longrightarrow>
        FillRect 0 0 (containerWidth (vp exTwoRowProps)) (containerHeight (vp exTwoRowProps)) \<notin>
          set (fst (drawCanvas exTwoRowProps 1 exTextMeasurement 150 1 exHoverInfo))"
    by blast
  then have "FillRect 0 0 250 72 \<notin>
     set (fst (drawCanvas exTwoRowProps 1 exTextMeasurement 150 1 exHoverInfo))"
    by (simp add: exTwoRow_geometry)
  then show ?thesis using rh
    by (simp add: exTwoRow_hover exTwoRow_timing exTwoRow_calls)
qed

section \<open>C7: the row index\<close>

text \<open>
  C7 (amended). For rows whose arrays have the length the row says, the index maps every
  marker identifier contained in a timing row to the number of the last timing row that
  contains it, so to the number of its row when no later row contains it; every entry
  comes from a timing row, so bucket rows contribute none. After any lookups \<open>as\<close>,
  looking the index up for the array at address \<open>a\<close> returns an instance holding the
  index of its rows; a second lookup returns the same instance and changes nothing; an
  instance is built exactly when \<open>a\<close> was not looked up before.
\<close>

theorem C7_row_index:
  assumes wf: "wf_rows rows"
    and rows: "heap a = rows"
    and st: "st = memoAfter heap as"
    and first: "first = getMarkerIndexToTimingRow heap st a"
    and second: "second = getMarkerIndexToTimingRow heap (snd first) a"
  shows "(\<forall>k. (\<exists>r mt. r < length rows \<and> rows ! r = Timing mt \<and> k \<in> set (mt_index mt)) \<longrightarrow>
            (\<exists>r mt. computeMarkerIndexToTimingRow rows k = Some (int r) \<and>
               r < length rows \<and> rows ! r = Timing mt \<and> k \<in> set (mt_index mt) \<and>
               (\<forall>r' mt'. r < r' \<and> r' < length rows \<and> rows ! r' = Timing mt' \<longrightarrow>
                  k \<notin> set (mt_index mt')))) \<and>
         (\<forall>r mt k. r < length rows \<and> rows ! r = Timing mt \<and> k \<in> set (mt_index mt) \<and>
            (\<forall>r' mt'. r < r' \<and> r' < length rows \<and> rows ! r' = Timing mt' \<longrightarrow>
               k \<notin> set (mt_index mt')) \<longrightarrow>
            computeMarkerIndexToTimingRow rows k = Some (int r)) \<and>
         (\<forall>k z. computeMarkerIndexToTimingRow rows k = Some z \<longrightarrow>
            (\<exists>r mt. z = int r \<and> r < length rows \<and> rows ! r = Timing mt \<and>
               k \<in> set (mt_index mt))) \<and>
         second = first \<and>
         fst first < length (instances (snd first)) \<and>
         instances (snd first) ! fst first = computeMarkerIndexToTimingRow rows \<and>
         (a \<in> set as \<longrightarrow> snd first = st) \<and>
         (a \<notin> set as \<longrightarrow>
            fst first = length (instances st) \<and>
            instances (snd first) = instances st @ [computeMarkerIndexToTimingRow rows])"
proof -
  have last: "computeMarkerIndexToTimingRow rows k = Some (int r)"
    if "r < length rows" "rows ! r = Timing mt" "k \<in> set (mt_index mt)"
      "\<forall>r' mt'. r < r' \<and> r' < length rows \<and> rows ! r' = Timing mt' \<longrightarrow> k \<notin> set (mt_index mt')"
    for r mt k
    unfolding computeMarkerIndexToTimingRow_def
    using index_prefix_last[OF wf le_refl that] .
  have some: "\<exists>r mt. z = int r \<and> r < length rows \<and> rows ! r = Timing mt \<and> k \<in> set (mt_index mt)"
    if "computeMarkerIndexToTimingRow rows k = Some z" for k z
    using index_prefix_some[OF wf le_refl that[unfolded computeMarkerIndexToTimingRow_def]]
    by blast
  have ex: "\<exists>r mt. computeMarkerIndexToTimingRow rows k = Some (int r) \<and>
               r < length rows \<and> rows ! r = Timing mt \<and> k \<in> set (mt_index mt) \<and>
               (\<forall>r' mt'. r < r' \<and> r' < length rows \<and> rows ! r' = Timing mt' \<longrightarrow>
                  k \<notin> set (mt_index mt'))"
    if c: "\<exists>r mt. r < length rows \<and> rows ! r = Timing mt \<and> k \<in> set (mt_index mt)" for k
  proof -
    define C where "C = {r. r < length rows \<and> (\<exists>mt. rows ! r = Timing mt \<and> k \<in> set (mt_index mt))}"
    have fin: "finite C" "C \<noteq> {}" using c by (auto simp: C_def)
    define r where "r = Max C"
    have "r \<in> C" unfolding r_def using fin by (rule Max_in)
    then obtain mt where r: "r < length rows" "rows ! r = Timing mt" "k \<in> set (mt_index mt)"
      by (auto simp: C_def)
    have later: "\<forall>r' mt'. r < r' \<and> r' < length rows \<and> rows ! r' = Timing mt' \<longrightarrow> k \<notin> set (mt_index mt')"
    proof (intro allI impI notI)
      fix r' mt' assume a: "r < r' \<and> r' < length rows \<and> rows ! r' = Timing mt'" and "k \<in> set (mt_index mt')"
      then have "r' \<in> C" by (auto simp: C_def)
      then have "r' \<le> r" unfolding r_def using fin(1) by (rule Max_ge[rotated])
      then show False using a by simp
    qed
    from last[OF r later] r later show ?thesis by blast
  qed
  have valid: "validMemo heap st" unfolding st by (rule validMemo_memoAfter)
  have dom: "dom (memoCache st) = set as" unfolding st by (rule dom_memoAfter)
  have valid1: "validMemo heap (snd first)" unfolding first using valid by (rule validMemo_step)
  have hit: "memoCache (snd first) a = Some (fst first)"
    by (auto simp: first getMarkerIndexToTimingRow_def split: option.splits)
  have twice: "second = first"
    using hit by (cases first) (simp add: second getMarkerIndexToTimingRow_def)
  have inst: "fst first < length (instances (snd first))"
    "instances (snd first) ! fst first = computeMarkerIndexToTimingRow rows"
    using valid1 hit rows by (auto simp: validMemo_def)
  have seen: "a \<in> set as \<longrightarrow> snd first = st"
    using dom by (auto simp: first getMarkerIndexToTimingRow_def split: option.splits)
  have fresh: "a \<notin> set as \<longrightarrow>
            fst first = length (instances st) \<and>
            instances (snd first) = instances st @ [computeMarkerIndexToTimingRow rows]"
  proof
    assume "a \<notin> set as"
    then have "memoCache st a = None" using dom by auto
    then show "fst first = length (instances st) \<and>
            instances (snd first) = instances st @ [computeMarkerIndexToTimingRow rows]"
      by (simp add: first getMarkerIndexToTimingRow_def rows)
  qed
  show ?thesis using ex last some twice inst seen fresh by blast
qed

text \<open>C7 as stated fails: an identifier contained in rows 0 and 1 is mapped to row 1.\<close>

theorem C7_counterexample:
  "exRepeatedRows ! 0 = Timing exRowA \<and> 5 \<in> set (mt_index exRowA) \<and>
   computeMarkerIndexToTimingRow exRepeatedRows 5 = Some 1 \<and>
   computeMarkerIndexToTimingRow exRepeatedRows 5 \<noteq> Some 0"
  by (simp add: exRepeated_index) (simp add: exRepeatedRows_def exRowA_def)

text \<open>The rows of the example: a bucket, then marker 5 in row 1 and marker 7 in row 2.\<close>

theorem C7_witness:
  "wf_rows [Bucket ''Other'', Timing exRowA, Timing exRowB] \<and>
   computeMarkerIndexToTimingRow [Bucket ''Other'', Timing exRowA, Timing exRowB] 5 = Some 1 \<and>
   computeMarkerIndexToTimingRow [Bucket ''Other'', Timing exRowA, Timing exRowB] 7 = Some 2 \<and>
   getMarkerIndexToTimingRow (\<lambda>a. [Bucket ''Other'', Timing exRowA, Timing exRowB])
     (snd (getMarkerIndexToTimingRow (\<lambda>a. [Bucket ''Other'', Timing exRowA, Timing exRowB])
             (memoAfter (\<lambda>a. [Bucket ''Other'', Timing exRowA, Timing exRowB]) []) 0)) 0 =
   getMarkerIndexToTimingRow (\<lambda>a. [Bucket ''Other'', Timing exRowA, Timing exRowB])
     (memoAfter (\<lambda>a. [Bucket ''Other'', Timing exRowA, Timing exRowB]) []) 0 \<and>
   instances (snd (getMarkerIndexToTimingRow (\<lambda>a. [Bucket ''Other'', Timing exRowA, Timing exRowB])
     (memoAfter (\<lambda>a. [Bucket ''Other'', Timing exRowA, Timing exRowB]) []) 0)) =
     [computeMarkerIndexToTimingRow [Bucket ''Other'', Timing exRowA, Timing exRowB]]"
proof -
  let ?rows = "[Bucket ''Other'', Timing exRowA, Timing exRowB]"
  let ?heap = "\<lambda>a::nat. ?rows"
  let ?st = "memoAfter ?heap []"
  let ?first = "getMarkerIndexToTimingRow ?heap ?st 0"
  have m: "?st = \<lparr>memoCache = Map.empty, instances = []\<rparr>"
    by (simp add: memoAfter_def)
  have f: "?first = (0, \<lparr>memoCache = [0 \<mapsto> 0], instances = [computeMarkerIndexToTimingRow ?rows]\<rparr>)"
    by (simp add: m getMarkerIndexToTimingRow_def)
  from C7_row_index[of ?rows ?heap 0 ?st "[]" ?first "getMarkerIndexToTimingRow ?heap (snd ?first) 0"]
  show ?thesis by (simp add: exTwoRow_wf exTwoRow_index f)
qed

section \<open>C8: hit testing at the start of a marker\<close>




section \<open>C9: the diamond of an instant marker\<close>

text \<open>
  C9 (amended). An instant marker is drawn as a filled and stroked diamond path centred
  horizontally at its rounded \<open>x\<close>, of height \<open>h - 3\<close> and half-width \<open>h / 4\<close> where \<open>h\<close>
  is the height drawMarkers passes, \<open>rowHeight - 1\<close>: the path is \<open>rowHeight - 4\<close>
  high and \<open>(rowHeight - 1) / 4\<close> wide on each side.
\<close>

theorem C9_instant_marker_diamond:
  assumes "mt_start mt ! i = mt_end mt ! i"
    and "m = markerGeometry P dpr rowIndex mt i"
    and "pts = pathPoints (drawOneMarker P tm m isHighlighted)"
  shows "drawOneMarker P tm m isHighlighted =
           [SetFillStyle (if isHighlighted then BLUE_60 else Css ''#8ac4ff''),
            SetStrokeStyle (if isHighlighted then BLUE_80 else MARKER_BORDER_COLOR),
            BeginPath,
            MoveTo (di_x m - (rowHeight P - 1) / 4) (di_y m + (rowHeight P - 1) / 2),
            LineTo (di_x m) (di_y m + 1.5),
            LineTo (di_x m + (rowHeight P - 1) / 4) (di_y m + (rowHeight P - 1) / 2),
            LineTo (di_x m) (di_y m + (rowHeight P - 1) - 1.5),
            ClosePath, Fill, Stroke] \<and>
         length pts = 4 \<and>
         snd (pts ! 3) - snd (pts ! 1) = rowHeight P - 4 \<and>
         fst (pts ! 1) - fst (pts ! 0) = (rowHeight P - 1) / 4 \<and>
         fst (pts ! 2) - fst (pts ! 1) = (rowHeight P - 1) / 4 \<and>
         fst (pts ! 1) = di_x m \<and> fst (pts ! 3) = di_x m"
proof -
  have inst: "di_isInstantMarker m" "di_h m = rowHeight P - 1"
    using assms(1,2) by (simp_all add: markerGeometry_def Let_def)
  then have d: "drawOneMarker P tm m isHighlighted =
           [SetFillStyle (if isHighlighted then BLUE_60 else Css ''#8ac4ff''),
            SetStrokeStyle (if isHighlighted then BLUE_80 else MARKER_BORDER_COLOR),
            BeginPath,
            MoveTo (di_x m - (rowHeight P - 1) / 4) (di_y m + (rowHeight P - 1) / 2),
            LineTo (di_x m) (di_y m + 1.5),
            LineTo (di_x m + (rowHeight P - 1) / 4) (di_y m + (rowHeight P - 1) / 2),
            LineTo (di_x m) (di_y m + (rowHeight P - 1) - 1.5),
            ClosePath, Fill, Stroke]"
    by (simp add: drawOneMarker_def drawOneInstantMarker_def)
  show ?thesis unfolding assms(3) d by simp
qed

text \<open>C9 as stated fails: with a row height of 24 the diamond is 20 high, not 21, and
  23/4 wide on each side, not 6.\<close>

theorem C9_counterexample:
  "mt_start exDotsTiming ! 0 = mt_end exDotsTiming ! 0 \<and>
   rowHeight exDotsProps = 24 \<and>
   pathPoints (drawOneMarker exDotsProps exTextMeasurement
      (markerGeometry exDotsProps 1 0 exDotsTiming 0) False) =
     [(17 / 4, 23 / 2), (10, 3 / 2), (63 / 4, 23 / 2), (10, 43 / 2)] \<and>
   (43 / 2 - 3 / 2 :: real) \<noteq> rowHeight exDotsProps - 3 \<and>
   (63 / 4 - 10 :: real) \<noteq> rowHeight exDotsProps / 4"
  by (simp add: exDots_points exDots_rowHeight) (simp add: exDotsTiming_def)

text \<open>The first dot of the example.\<close>

theorem C9_witness:
  "mt_start exDotsTiming ! 0 = mt_end exDotsTiming ! 0 \<and>
   pathPoints (drawOneMarker exDotsProps exTextMeasurement
      (markerGeometry exDotsProps 1 0 exDotsTiming 0) False) =
     [(17 / 4, 23 / 2), (10, 3 / 2), (63 / 4, 23 / 2), (10, 43 / 2)] \<and>
   (43 / 2 - 3 / 2 :: real) = rowHeight exDotsProps - 4 \<and>
   (63 / 4 - 10 :: real) = (rowHeight exDotsProps - 1) / 4"
  using C9_instant_marker_diamond[of exDotsTiming 0 "markerGeometry exDotsProps 1 0 exDotsTiming 0"
      exDotsProps 1 0
      "pathPoints (drawOneMarker exDotsProps exTextMeasurement
         (markerGeometry exDotsProps 1 0 exDotsTiming 0) False)" exTextMeasurement False]
  by (simp add: exDots_points exDots_rowHeight) (simp add: exDotsTiming_def)

section \<open>C10: the first row in the active tab view\<close>

text \<open>
  C10. In the active tab view, for a pointer in the clickable region whose row is row 0,
  a non-empty timing row, the previous row \<open>markerTimingAndBuckets[-1]\<close> is undefined
  and hitTest throws a TypeError.
\<close>

theorem C10_active_tab_first_row_throws:
  assumes "timelineTrackOrganizationType P = ''active-tab''"
    and "rowHeight P \<noteq> 0"
    and "hitRowIndex P y = 0"
    and "rowAt (markerTimingAndBuckets P) 0 = Some (Timing mt)"
    and "mt_length mt \<noteq> 0"
    and "\<not> x < marginLeft P - dotRadius P"
  shows "rowAt (markerTimingAndBuckets P) (hitRowIndex P y - 1) = None \<and>
         hitTest P tm x y = Inl TypeError"
  using assms by (simp add: hitTest_def hitLabel_def rowAt_def)

text \<open>The example chart in the active tab view.\<close>

theorem C10_witness:
  "timelineTrackOrganizationType exActiveTabProps = ''active-tab'' \<and>
   rowHeight exActiveTabProps \<noteq> 0 \<and>
   \<not> 15 < marginLeft exActiveTabProps - dotRadius exActiveTabProps \<and>
   hitRowIndex exActiveTabProps 0 = 0 \<and>
   markerTimingAndBuckets exActiveTabProps ! 0 = Timing exTiming \<and>
   mt_length exTiming = 2 \<and>
   hitTest exActiveTabProps None 15 0 = Inl TypeError"
  using C10_active_tab_first_row_throws[of exActiveTabProps 0 exTiming 15 None]
  by (simp add: exActive_eval) (simp add: exActiveTabProps_def exProps_def exTiming_def)

end
